theory Spec2Isabelle
  imports Complex_Main "HOL-Library.Sublist"
begin

section \<open>JavaScript values\<close>

text \<open>
  The widget and the server pass untyped JavaScript values around: the parsed consent
  cookie, configuration objects, request bodies. They are modelled by one datatype.
  An object is the list of its own enumerable properties in insertion order; numbers are
  rationals (\<open>NaN\<close> and the infinities are not represented); a function value is opaque.
\<close>

datatype jsval =
    JUndefined
  | JNull
  | JBool bool
  | JNum rat
  | JStr string
  | JArr "jsval list"
  | JObj "(string \<times> jsval) list"
  | JFun nat

text \<open>Truthiness, as used by \<open>&&\<close>, \<open>||\<close>, \<open>!\<close> and \<open>if\<close>.\<close>

fun truthy :: "jsval \<Rightarrow> bool" where
  "truthy JUndefined = False"
| "truthy JNull = False"
| "truthy (JBool b) = b"
| "truthy (JNum n) = (n \<noteq> 0)"
| "truthy (JStr s) = (s \<noteq> [])"
| "truthy (JArr xs) = True"
| "truthy (JObj fs) = True"
| "truthy (JFun f) = True"

text \<open>The \<open>typeof\<close> operator: \<open>null\<close> and arrays are objects.\<close>

fun typeof :: "jsval \<Rightarrow> string" where
  "typeof JUndefined = ''undefined''"
| "typeof JNull = ''object''"
| "typeof (JBool b) = ''boolean''"
| "typeof (JNum n) = ''number''"
| "typeof (JStr s) = ''string''"
| "typeof (JArr xs) = ''object''"
| "typeof (JObj fs) = ''object''"
| "typeof (JFun f) = ''function''"

fun isArray :: "jsval \<Rightarrow> bool" where
  "isArray (JArr xs) = True"
| "isArray v = False"

text \<open>\<open>a || b\<close> and \<open>a && b\<close> on values.\<close>

definition js_or :: "jsval \<Rightarrow> jsval \<Rightarrow> jsval" where
  "js_or a b = (if truthy a then a else b)"

definition js_and :: "jsval \<Rightarrow> jsval \<Rightarrow> jsval" where
  "js_and a b = (if truthy a then b else a)"

text \<open>Decimal rendering of an array index, as in the property key \<open>"12"\<close>.\<close>

definition digit_char :: "nat \<Rightarrow> char" where
  "digit_char d = char_of (48 + d)"

fun show_nat :: "nat \<Rightarrow> string" where
  "show_nat n = (if n < 10 then [digit_char n] else show_nat (n div 10) @ [digit_char (n mod 10)])"

declare show_nat.simps [simp del]

definition index_of_key :: "nat \<Rightarrow> string \<Rightarrow> nat option" where
  "index_of_key len k = find (\<lambda>i. show_nat i = k) [0..<len]"

text \<open>
  Property read \<open>v[k]\<close> on a value that is neither \<open>null\<close> nor \<open>undefined\<close> (on
  those the read throws; every read in the modelled code is guarded). Arrays and strings
  expose \<open>length\<close> and their indices; a missing property reads as \<open>undefined\<close>.
\<close>

fun get_prop :: "jsval \<Rightarrow> string \<Rightarrow> jsval" where
  "get_prop (JObj fs) k = (case map_of fs k of None \<Rightarrow> JUndefined | Some v \<Rightarrow> v)"
| "get_prop (JArr xs) k =
     (if k = ''length'' then JNum (of_nat (length xs))
      else case index_of_key (length xs) k of None \<Rightarrow> JUndefined | Some i \<Rightarrow> xs ! i)"
| "get_prop (JStr s) k =
     (if k = ''length'' then JNum (of_nat (length s))
      else case index_of_key (length s) k of None \<Rightarrow> JUndefined | Some i \<Rightarrow> JStr [s ! i])"
| "get_prop v k = JUndefined"

text \<open>
  Assignment \<open>o[k] = v\<close>: an existing key keeps its place, a new key is appended. (An
  engine lists integer-like keys first; nothing below depends on the order of keys.)
\<close>

definition obj_set :: "(string \<times> jsval) list \<Rightarrow> string \<Rightarrow> jsval \<Rightarrow> (string \<times> jsval) list" where
  "obj_set fs k v =
     (if k \<in> fst ` set fs then map (\<lambda>(k', v'). (k', if k' = k then v else v')) fs
      else fs @ [(k, v)])"

text \<open>Object spread \<open>{ ...v }\<close>: the own enumerable properties of \<open>v\<close>.\<close>

fun spread :: "jsval \<Rightarrow> (string \<times> jsval) list" where
  "spread (JObj fs) = fs"
| "spread (JArr xs) = map (\<lambda>i. (show_nat i, xs ! i)) [0..<length xs]"
| "spread (JStr s) = map (\<lambda>i. (show_nat i, JStr [s ! i])) [0..<length s]"
| "spread v = []"

text \<open>\<open>String.prototype.includes\<close>: substring containment.\<close>

fun str_includes :: "string \<Rightarrow> string \<Rightarrow> bool" where
  "str_includes [] p = (p = [])"
| "str_includes (c # cs) p = (prefix p (c # cs) \<or> str_includes cs p)"


section \<open>Widget utilities: \<open>deepMerge\<close> (src/utils.ts)\<close>

text \<open>
  The test \<open>source[key] && typeof source[key] === 'object' && !Array.isArray(source[key])\<close>.
\<close>

definition is_plain_object :: "jsval \<Rightarrow> bool" where
  "is_plain_object v \<longleftrightarrow> truthy v \<and> typeof v = ''object'' \<and> \<not> isArray v"

fun fields_of :: "jsval \<Rightarrow> (string \<times> jsval) list" where
  "fields_of (JObj fs) = fs"
| "fields_of v = []"

text \<open>
  What a step of the merge comes to: a value; a thrown \<open>TypeError\<close>; or something that
  depends on what the values above leave out, namely the members that a value inherits
  from its prototype and the properties of a function.
\<close>

datatype 'a outcome = Known 'a | Throws | Unmodelled

text \<open>The names of the members of \<open>Object.prototype\<close>, which every object inherits.\<close>

definition Object_prototype_members :: "string list" where
  "Object_prototype_members =
     [''__proto__'', ''constructor'', ''hasOwnProperty'', ''isPrototypeOf'',
      ''propertyIsEnumerable'', ''toLocaleString'', ''toString'', ''valueOf'',
      ''__defineGetter__'', ''__defineSetter__'', ''__lookupGetter__'', ''__lookupSetter__'']"

text \<open>
  The read \<open>target[key]\<close> of the loop. On \<open>null\<close> and \<open>undefined\<close> it throws. On an
  object, an own property is read, and a key that is neither an own property nor a member
  of \<open>Object.prototype\<close> reads as \<open>undefined\<close>. The key \<open>__proto__\<close>, where it is not an
  own property, reads as the prototype of the object, \<open>Object.prototype\<close> itself. That
  object has no enumerable property of its own, and as the target of a merge it is
  indistinguishable from \<open>{}\<close>: the copy \<open>{ ...target }\<close> is empty for both, and both
  read every key alike, \<open>__proto__\<close> apart, under which the one has \<open>null\<close>, replaced by
  \<open>{}\<close>, and the other \<open>Object.prototype\<close> again. It is written \<open>JObj []\<close>. Any other
  member of \<open>Object.prototype\<close> reads as a function. On an array or a string, the length
  and the indices are read; what else such a value, a number, a boolean or a function
  has under a key is inherited or opaque.
\<close>

fun read_target :: "jsval \<Rightarrow> string \<Rightarrow> jsval outcome" where
  "read_target JUndefined key = Throws"
| "read_target JNull key = Throws"
| "read_target (JObj fs) key =
     (case map_of fs key of
        Some v \<Rightarrow> Known v
      | None \<Rightarrow>
          if key = ''__proto__'' then Known (JObj [])
          else if key \<in> set Object_prototype_members then Unmodelled
          else Known JUndefined)"
| "read_target (JArr xs) key =
     (if key = ''length'' \<or> index_of_key (length xs) key \<noteq> None then Known (get_prop (JArr xs) key)
      else Unmodelled)"
| "read_target (JStr s) key =
     (if key = ''length'' \<or> index_of_key (length s) key \<noteq> None then Known (get_prop (JStr s) key)
      else Unmodelled)"
| "read_target v key = Unmodelled"

text \<open>
  The object \<open>result\<close> that the loop builds: its prototype, where the loop has replaced
  it (\<open>None\<close>: it is \<open>Object.prototype\<close>, as for every object literal), and its own
  properties.
\<close>

type_synonym merged = "jsval option \<times> (string \<times> jsval) list"

text \<open>
  A property read on such an object goes to the own properties first and then to the
  prototype. (As with \<open>get_prop\<close>, the members inherited from \<open>Object.prototype\<close> are
  not read here.)
\<close>

fun merged_get :: "merged \<Rightarrow> string \<Rightarrow> jsval" where
  "merged_get (None, fs) k = get_prop (JObj fs) k"
| "merged_get (Some proto, fs) k =
     (case map_of fs k of Some v \<Rightarrow> v | None \<Rightarrow> get_prop proto k)"

text \<open>
  The assignment \<open>result[key] = v\<close>. It writes an own property, for every key but one:
  for \<open>__proto__\<close>, unless \<open>result\<close> has an own property of that name (copied from the
  target), the lookup goes up the prototypes of \<open>result\<close>. Where it ends at the accessor
  of \<open>Object.prototype\<close> (\<open>finds_setter\<close>: no prototype on the way is \<open>null\<close> or has
  an own property \<open>__proto__\<close>), the setter makes \<open>v\<close> the prototype of \<open>result\<close> when
  \<open>v\<close> is an object or \<open>null\<close>, and does nothing when \<open>v\<close> is a primitive; \<open>result\<close>
  gets no own property. (With a function for a prototype, later assignments depend on
  the function's own properties.)
\<close>

definition finds_setter :: "jsval option \<Rightarrow> bool" where
  "finds_setter proto =
     (case proto of
        None \<Rightarrow> True
      | Some p \<Rightarrow> p \<noteq> JNull \<and> ''__proto__'' \<notin> fst ` set (fields_of p))"

definition assign :: "merged \<Rightarrow> string \<Rightarrow> jsval \<Rightarrow> merged outcome" where
  "assign r key v =
     (if key = ''__proto__'' \<and> key \<notin> fst ` set (snd r) \<and> finds_setter (fst r) then
        (if typeof v = ''function'' then Unmodelled
         else if typeof v = ''object'' then Known (Some v, snd r)
         else Known r)
      else Known (fst r, obj_set (snd r) key v))"

text \<open>
  \<open>deepMerge(target, source)\<close>: \<open>result\<close> starts as a shallow copy of \<open>target\<close>; the
  \<open>for ... in\<close> loop (\<open>merge_keys\<close>) visits the keys of \<open>source\<close> in order, reading
  \<open>target[key]\<close> from the unchanged target and writing \<open>result[key]\<close>. The source is
  an object with the prototype of every object literal (as a parsed JSON text is), given
  by its own enumerable properties, which are then all that the loop visits. A function
  as the target may have properties to copy that the model does not know of, and a
  nested merge whose result has a replaced prototype cannot be written as a value.
\<close>

function deepMerge :: "jsval \<Rightarrow> (string \<times> jsval) list \<Rightarrow> merged outcome"
  and merge_keys :: "jsval \<Rightarrow> merged outcome \<Rightarrow> (string \<times> jsval) list \<Rightarrow> merged outcome"
where
  "deepMerge target source =
     (if typeof target = ''function'' then Unmodelled
      else merge_keys target (Known (None, spread target)) source)"
| "merge_keys target result [] = result"
| "merge_keys target result ((key, sv) # rest) =
     merge_keys target
       (case result of
          Known r \<Rightarrow>
            if is_plain_object sv then
              (case read_target target key of
                 Known tv \<Rightarrow>
                   (case deepMerge (js_or tv (JObj [])) (fields_of sv) of
                      Known m \<Rightarrow> (if fst m = None then assign r key (JObj (snd m)) else Unmodelled)
                    | Throws \<Rightarrow> Throws
                    | Unmodelled \<Rightarrow> Unmodelled)
               | Throws \<Rightarrow> Throws
               | Unmodelled \<Rightarrow> Unmodelled)
            else if sv \<noteq> JUndefined then assign r key sv
            else Known r
        | Throws \<Rightarrow> Throws
        | Unmodelled \<Rightarrow> Unmodelled)
       rest"
  by pat_completeness auto

termination
proof (relation "measure (\<lambda>x. case x of
          Inl (t, s) \<Rightarrow> Suc (2 * size_list (size_prod (\<lambda>_. 0) size) s)
        | Inr (t, r, s) \<Rightarrow> 2 * size_list (size_prod (\<lambda>_. 0) size) s)", goal_cases)
  case 1
  show ?case by simp
next
  case (2 target source)
  show ?case by simp
next
  case (3 target result key sv rest)
  then show ?case by (cases sv) (simp_all add: is_plain_object_def)
next
  case (4 target result key sv rest)
  show ?case by simp
qed

section \<open>The consent widget (src/CookiePlugin.ts)\<close>

subsection \<open>Configuration\<close>

text \<open>\<open>getDefaultConfig()\<close>.\<close>

definition getDefaultConfig :: jsval where
  "getDefaultConfig = JObj [
     (''enabled'', JBool True),
     (''theme'', JStr ''light''),
     (''position'', JStr ''bottom''),
     (''autoShow'', JBool True),
     (''showOnScroll'', JBool False),
     (''scrollThreshold'', JNum 100),
     (''categories'', JObj [
        (''essential'', JObj [
           (''name'', JStr ''Essential''),
           (''description'', JStr ''These cookies are necessary for the website to function properly.''),
           (''required'', JBool True),
           (''cookies'', JArr [JStr ''session'', JStr ''csrf'', JStr ''language''])]),
        (''analytics'', JObj [
           (''name'', JStr ''Analytics''),
           (''description'', JStr ''These cookies help us understand how visitors interact with our website.''),
           (''required'', JBool False),
           (''cookies'', JArr [JStr ''_ga'', JStr ''_gid'', JStr ''_gat''])]),
        (''marketing'', JObj [
           (''name'', JStr ''Marketing''),
           (''description'', JStr ''These cookies are used to deliver personalized advertisements.''),
           (''required'', JBool False),
           (''cookies'', JArr [JStr ''_fbp'', JStr ''fr''])]),
        (''preferences'', JObj [
           (''name'', JStr ''Preferences''),
           (''description'', JStr ''These cookies remember your preferences and settings.''),
           (''required'', JBool False),
           (''cookies'', JArr [JStr ''theme'', JStr ''language'', JStr ''timezone''])])]),
     (''ui'', JObj [
        (''primaryColor'', JStr ''#007bff''),
        (''secondaryColor'', JStr ''#6c757d''),
        (''borderRadius'', JStr ''8px''),
        (''fontFamily'', JStr ''system-ui, sans-serif''),
        (''fontSize'', JStr ''14px''),
        (''animation'', JBool True),
        (''backdrop'', JBool True)]),
     (''texts'', JObj [
        (''title'', JStr ''Cookie Consent''),
        (''description'', JStr ''We use cookies to enhance your browsing experience.''),
        (''acceptAll'', JStr ''Accept All''),
        (''rejectAll'', JStr ''Reject All''),
        (''customize'', JStr ''Customize''),
        (''save'', JStr ''Save Preferences''),
        (''close'', JStr ''Close''),
        (''moreInfo'', JStr ''More Information''),
        (''cookiePolicy'', JStr ''Cookie Policy''),
        (''privacyPolicy'', JStr ''Privacy Policy'')]),
     (''cookieSettings'', JObj [
        (''name'', JStr ''ns-cookie-consent''),
        (''expiry'', JNum 365),
        (''domain'', JStr []),
        (''path'', JStr ''/''),
        (''secure'', JBool False),
        (''sameSite'', JStr ''Lax'')]),
     (''debug'', JBool False),
     (''version'', JStr ''1.0.0'')]"

text \<open>
  \<open>mergeConfig(userConfig)\<close>: the defaults overridden by the caller's partial
  configuration, given by its own enumerable properties. A merged configuration whose
  prototype has been replaced is not a value of the model.
\<close>

definition mergeConfig :: "(string \<times> jsval) list \<Rightarrow> jsval outcome" where
  "mergeConfig userConfig =
     (case deepMerge getDefaultConfig userConfig of
        Known m \<Rightarrow> (if fst m = None then Known (JObj (snd m)) else Unmodelled)
      | Throws \<Rightarrow> Throws
      | Unmodelled \<Rightarrow> Unmodelled)"

subsection \<open>State of a plugin instance\<close>

text \<open>
  A checkbox of the preferences modal, as \<open>saveCustomPreferences\<close> sees it: its
  \<open>data-category\<close> attribute (absent: \<open>None\<close>) and whether it is checked.
\<close>

record checkbox =
  data_category :: "string option"
  checked :: bool

text \<open>
  The fields of the class, the consent cookie of the browser's cookie jar (the text held
  under the configured name, if any) and the hooks called so far (hook name and
  argument). \<open>consent\<close> is \<open>JNull\<close> while no decision is held. \<open>modal\<close> is \<open>None\<close>
  while \<open>this.modal\<close> is \<open>null\<close>, and otherwise the result of
  \<open>this.modal.querySelectorAll('input[type="checkbox"]')\<close>: the checkboxes of the
  modal in document order, as the browser has built them from the markup of
  \<open>getModalHTML()\<close> and as the user has left them. (That markup is a template into which
  the texts of the configuration and the name, the description and the key of each
  category are put as they are; what elements it comes to is the browser's reading of
  the whole.) The bar and the modal are taken out of the state at once when hidden (the
  code removes them after the 300 ms fade-out).
\<close>

record plugin =
  config :: jsval
  consent :: jsval
  cookie :: "string option"
  cookieBar :: bool
  modal :: "checkbox list option"
  scrollListener :: bool
  hooks :: "(string \<times> jsval) list"

subsection \<open>Reading the stored consent\<close>

text \<open>
  \<open>isValidConsent(consent)\<close>. The chain of \<open>&&\<close> stops at the first falsy operand, so
  the property reads happen on a truthy object only.
\<close>

definition isValidConsent :: "jsval \<Rightarrow> bool" where
  "isValidConsent c \<longleftrightarrow>
     truthy c \<and>
     typeof c = ''object'' \<and>
     typeof (get_prop c ''timestamp'') = ''number'' \<and>
     typeof (get_prop c ''version'') = ''string'' \<and>
     truthy (get_prop c ''categories'') \<and>
     typeof (get_prop c ''categories'') = ''object''"

text \<open>
  \<open>loadConsent()\<close>. \<open>parse\<close> stands for \<open>JSON.parse\<close>, with \<open>None\<close> where it throws;
  the argument is what \<open>Cookies.get(name)\<close> returns (\<open>None\<close> for \<open>undefined\<close>). An empty
  cookie text is falsy and is not parsed.
\<close>

definition loadConsent :: "(string \<Rightarrow> jsval option) \<Rightarrow> string option \<Rightarrow> jsval" where
  "loadConsent parse consentCookie =
     (case consentCookie of
        None \<Rightarrow> JNull
      | Some text \<Rightarrow>
          if text = [] then JNull
          else (case parse text of
                  None \<Rightarrow> JNull
                | Some c \<Rightarrow> if isValidConsent c then c else JNull))"

text \<open>
  A cookie text whose \<open>categories\<close> field is an array,
  \<open>{"timestamp":1,"version":"1.0.0","categories":[]}\<close>, and what \<open>JSON.parse\<close> makes
  of it.
\<close>

definition quoted :: "string \<Rightarrow> string" where
  "quoted s = [CHR 0x22] @ s @ [CHR 0x22]"

definition array_categories_text :: string where
  "array_categories_text =
     ''{'' @ quoted ''timestamp'' @ '':1,'' @ quoted ''version'' @ '':'' @ quoted ''1.0.0'' @ '','' @
     quoted ''categories'' @ '':[]}''"

definition array_categories_record :: jsval where
  "array_categories_record =
     JObj [(''timestamp'', JNum 1), (''version'', JStr ''1.0.0''), (''categories'', JArr [])]"

text \<open>
  A stand-in for \<open>JSON.parse\<close> that knows two texts, the empty object and the text
  above, and throws on every other.
\<close>

definition parse_sample :: "string \<Rightarrow> jsval option" where
  "parse_sample t =
     (if t = ''{}'' then Some (JObj [])
      else if t = array_categories_text then Some array_categories_record
      else None)"

definition hasConsent :: "plugin \<Rightarrow> bool" where
  "hasConsent p \<longleftrightarrow> consent p \<noteq> JNull"

text \<open>Reading a property of \<open>null\<close> or \<open>undefined\<close> throws a \<open>TypeError\<close>.\<close>

datatype js_error = TypeError

definition throws_on_read :: "jsval \<Rightarrow> bool" where
  "throws_on_read v \<longleftrightarrow> v = JNull \<or> v = JUndefined"

text \<open>
  \<open>showCookieBar()\<close>: no second bar is created. \<open>createCookieBar()\<close> reads the texts
  and the theme of the configuration while it builds the bar; where one of them is
  \<open>null\<close> or \<open>undefined\<close> the error is caught and logged, and there is no bar.
\<close>

definition showCookieBar :: "plugin \<Rightarrow> plugin" where
  "showCookieBar p =
     (if cookieBar p then p
      else if throws_on_read (get_prop (config p) ''texts'') \<or> throws_on_read (get_prop (config p) ''ui'')
      then p
      else p\<lparr>cookieBar := True\<rparr>)"

definition hideCookieBar :: "plugin \<Rightarrow> plugin" where
  "hideCookieBar p = (if \<not> cookieBar p then p else p\<lparr>cookieBar := False\<rparr>)"

definition hideModal :: "plugin \<Rightarrow> plugin" where
  "hideModal p = (case modal p of None \<Rightarrow> p | Some boxes \<Rightarrow> p\<lparr>modal := None\<rparr>)"

text \<open>
  \<open>applyConsent()\<close> signals the analytics and marketing integrations of the page and
  writes or removes the preferences blob of local storage; those live outside the plugin
  and the plugin's own fields are left as they are. (The integrations and the storage
  are taken to accept the calls; where one of them throws, the calling method ends
  there.)
\<close>

definition applyConsent :: "plugin \<Rightarrow> plugin" where
  "applyConsent p = p"

text \<open>\<open>init()\<close>.\<close>

definition init :: "plugin \<Rightarrow> plugin" where
  "init p =
     (if \<not> truthy (get_prop (config p) ''enabled'') then p
      else
        let p1 = (if hasConsent p then applyConsent p
                  else if truthy (get_prop (config p) ''autoShow'') then showCookieBar p
                  else p)
        in if truthy (get_prop (config p1) ''showOnScroll'') then p1\<lparr>scrollListener := True\<rparr>
           else p1)"

text \<open>
  The constructor \<open>new CookiePlugin(config)\<close> on a page whose cookie jar holds \<open>jar\<close>
  under the configured name. \<open>construct\<close> is what follows \<open>mergeConfig\<close>, with \<open>cfg\<close>
  the merged configuration: \<open>loadConsent\<close> reads \<open>config.cookieSettings.name\<close> outside
  its \<open>try\<close>, so where the merged configuration has no cookie settings, the constructor
  throws.
\<close>

definition construct :: "(string \<Rightarrow> jsval option) \<Rightarrow> jsval \<Rightarrow> string option \<Rightarrow> js_error + plugin" where
  "construct parse cfg jar =
     (if throws_on_read (get_prop cfg ''cookieSettings'') then Inl TypeError
      else Inr (init \<lparr> config = cfg,
                       consent = loadConsent parse jar,
                       cookie = jar,
                       cookieBar = False,
                       modal = None,
                       scrollListener = False,
                       hooks = [] \<rparr>))"

definition CookiePlugin ::
  "(string \<Rightarrow> jsval option) \<Rightarrow> (string \<times> jsval) list \<Rightarrow> string option \<Rightarrow> (js_error + plugin) outcome" where
  "CookiePlugin parse userConfig jar =
     (case mergeConfig userConfig of
        Known cfg \<Rightarrow> Known (construct parse cfg jar)
      | Throws \<Rightarrow> Throws
      | Unmodelled \<Rightarrow> Unmodelled)"

subsection \<open>Recording a decision\<close>

text \<open>
  \<open>saveConsent(consent)\<close>. The record is held first. Then comes the cookie write: the
  arguments of \<open>Cookies.set\<close> are read from \<open>config.cookieSettings\<close> (the name, the
  expiry, the path, the domain, \<open>secure\<close> and \<open>sameSite.toLowerCase()\<close>) and
  \<open>Cookies.set\<close> is called with the text \<open>JSON.stringify(consent)\<close>. The js-cookie
  package and the browser's jar are outside the repository; \<open>cookies_set\<close> stands for
  the whole write. From the configuration, the text and the jar's entry of before, it
  either throws (the settings are missing, \<open>sameSite\<close> has no \<open>toLowerCase\<close>, or an
  attribute is one that \<open>Cookies.set\<close> cannot render), and then the \<open>catch\<close> of the
  calling method ends that method; or it returns, and the jar holds what the browser
  makes of the cookie (no entry where the expiry is not in the future). \<open>stringify\<close>
  stands for \<open>JSON.stringify\<close>. The result says whether \<open>saveConsent\<close> has returned.
\<close>

datatype jar_write = WriteThrows | Jar "string option"

type_synonym cookie_write = "jsval \<Rightarrow> string \<Rightarrow> string option \<Rightarrow> jar_write"

definition saveConsent :: "cookie_write \<Rightarrow> (jsval \<Rightarrow> string) \<Rightarrow> jsval \<Rightarrow> plugin \<Rightarrow> bool \<times> plugin" where
  "saveConsent cookies_set stringify c p =
     (case cookies_set (config p) (stringify c) (cookie p) of
        WriteThrows \<Rightarrow> (False, p\<lparr>consent := c\<rparr>)
      | Jar entry \<Rightarrow> (True, p\<lparr>consent := c, cookie := entry\<rparr>))"



text \<open>
  A configured hook (\<open>onAccept\<close>, \<open>onReject\<close>, \<open>onSave\<close>) is called with the record;
  what the callback does is the page's business.
\<close>

definition call_hook :: "string \<Rightarrow> jsval \<Rightarrow> plugin \<Rightarrow> plugin" where
  "call_hook name c p =
     (if truthy (get_prop (config p) name) then p\<lparr>hooks := hooks p @ [(name, c)]\<rparr> else p)"

text \<open>\<open>acceptAll()\<close> and \<open>rejectAll()\<close>; \<open>now\<close> is \<open>Date.now()\<close>.\<close>

definition acceptAll :: "cookie_write \<Rightarrow> (jsval \<Rightarrow> string) \<Rightarrow> int \<Rightarrow> plugin \<Rightarrow> plugin" where
  "acceptAll cookies_set stringify now p =
     (let c = JObj [
                (''timestamp'', JNum (of_int now)),
                (''version'', get_prop (config p) ''version''),
                (''categories'', JObj [
                   (''essential'', JBool True),
                   (''analytics'', JBool True),
                   (''marketing'', JBool True),
                   (''preferences'', JBool True)])];
          saved = saveConsent cookies_set stringify c p
      in if \<not> fst saved then snd saved
         else call_hook ''onAccept'' c (hideModal (hideCookieBar (applyConsent (snd saved)))))"

definition rejectAll :: "cookie_write \<Rightarrow> (jsval \<Rightarrow> string) \<Rightarrow> int \<Rightarrow> plugin \<Rightarrow> plugin" where
  "rejectAll cookies_set stringify now p =
     (let c = JObj [
                (''timestamp'', JNum (of_int now)),
                (''version'', get_prop (config p) ''version''),
                (''categories'', JObj [
                   (''essential'', JBool True),
                   (''analytics'', JBool False),
                   (''marketing'', JBool False),
                   (''preferences'', JBool False)])];
          saved = saveConsent cookies_set stringify c p
      in if \<not> fst saved then snd saved
         else call_hook ''onReject'' c (hideModal (hideCookieBar (applyConsent (snd saved)))))"

subsection \<open>Saving the preferences of the modal\<close>






definition essential_optional_config :: jsval where
  "essential_optional_config =
     JObj (obj_set (spread getDefaultConfig) ''categories''
       (JObj (obj_set (spread (get_prop getDefaultConfig ''categories'')) ''essential''
          (JObj (obj_set (spread (get_prop (get_prop getDefaultConfig ''categories'') ''essential''))
             ''required'' (JBool False))))))"



section \<open>Configuration fetch of the widget (src/CookiePluginWithBackend.ts)\<close>

text \<open>
  \<open>BackendConfigOptions\<close> after the constructor has filled in the defaults
  (\<open>enableCache: true\<close>, \<open>cacheTimeout: 5 * 60 * 1000\<close>).
\<close>

record BackendConfigOptions =
  apiEndpoint :: string
  language :: "string option"
  enableCache :: bool
  cacheTimeout :: int











section \<open>Auto-blocker (blocker.ts)\<close>

datatype resource_type = Script | Iframe | Pixel

record rule =
  rule_id :: string
  rule_name :: string
  pattern :: string
  rtype :: resource_type
  category :: string
  enabled :: bool
  description :: string

record AutoBlocker =
  rules :: "rule list"
  isEnabled :: bool

definition initializeDefaultRules :: "rule list" where
  "initializeDefaultRules = [
     \<lparr> rule_id = ''google-analytics'', rule_name = ''Google Analytics'',
       pattern = ''google-analytics.com'', rtype = Script, category = ''analytics'',
       enabled = True, description = ''Blocks Google Analytics tracking'' \<rparr>,
     \<lparr> rule_id = ''google-tag-manager'', rule_name = ''Google Tag Manager'',
       pattern = ''googletagmanager.com'', rtype = Script, category = ''analytics'',
       enabled = True, description = ''Blocks Google Tag Manager'' \<rparr>,
     \<lparr> rule_id = ''facebook-pixel'', rule_name = ''Facebook Pixel'',
       pattern = ''connect.facebook.net'', rtype = Script, category = ''marketing'',
       enabled = True, description = ''Blocks Facebook Pixel tracking'' \<rparr>,
     \<lparr> rule_id = ''hotjar'', rule_name = ''Hotjar'',
       pattern = ''static.hotjar.com'', rtype = Script, category = ''analytics'',
       enabled = True, description = ''Blocks Hotjar tracking'' \<rparr>]"

text \<open>The constructor, \<open>enable()\<close> and \<open>disable()\<close>.\<close>

definition newAutoBlocker :: AutoBlocker where
  "newAutoBlocker = \<lparr> rules = initializeDefaultRules, isEnabled = False \<rparr>"

definition enable :: "AutoBlocker \<Rightarrow> AutoBlocker" where
  "enable b = b\<lparr>isEnabled := True\<rparr>"

definition disable :: "AutoBlocker \<Rightarrow> AutoBlocker" where
  "disable b = b\<lparr>isEnabled := False\<rparr>"

definition addRule :: "rule \<Rightarrow> AutoBlocker \<Rightarrow> AutoBlocker" where
  "addRule r b = b\<lparr>rules := rules b @ [r]\<rparr>"

definition removeRule :: "string \<Rightarrow> AutoBlocker \<Rightarrow> AutoBlocker" where
  "removeRule ruleId b = b\<lparr>rules := filter (\<lambda>r. rule_id r \<noteq> ruleId) (rules b)\<rparr>"

definition isRuleEnabled :: "string \<Rightarrow> AutoBlocker \<Rightarrow> bool" where
  "isRuleEnabled ruleId b =
     (case find (\<lambda>r. rule_id r = ruleId) (rules b) of None \<Rightarrow> False | Some r \<Rightarrow> enabled r)"

fun set_first_enabled :: "string \<Rightarrow> bool \<Rightarrow> rule list \<Rightarrow> rule list" where
  "set_first_enabled ruleId e [] = []"
| "set_first_enabled ruleId e (r # rs) =
     (if rule_id r = ruleId then r\<lparr>enabled := e\<rparr> # rs else r # set_first_enabled ruleId e rs)"

definition setRuleEnabled :: "string \<Rightarrow> bool \<Rightarrow> AutoBlocker \<Rightarrow> AutoBlocker" where
  "setRuleEnabled ruleId e b = b\<lparr>rules := set_first_enabled ruleId e (rules b)\<rparr>"

text \<open>
  \<open>shouldBlockScript(url)\<close>, \<open>shouldBlockIframe(url)\<close>, \<open>shouldBlockPixel(url)\<close>: the three
  differ in the resource type only.
\<close>

definition shouldBlock :: "resource_type \<Rightarrow> AutoBlocker \<Rightarrow> string \<Rightarrow> bool" where
  "shouldBlock t b url \<longleftrightarrow>
     isEnabled b \<and> list_ex (\<lambda>r. enabled r \<and> rtype r = t \<and> str_includes url (pattern r)) (rules b)"

definition shouldBlockScript :: "AutoBlocker \<Rightarrow> string \<Rightarrow> bool" where
  "shouldBlockScript = shouldBlock Script"

definition shouldBlockIframe :: "AutoBlocker \<Rightarrow> string \<Rightarrow> bool" where
  "shouldBlockIframe = shouldBlock Iframe"

definition shouldBlockPixel :: "AutoBlocker \<Rightarrow> string \<Rightarrow> bool" where
  "shouldBlockPixel = shouldBlock Pixel"

text \<open>
  The \<open>src\<close> setter that \<open>applyBlocking()\<close> installs on every script element created
  afterwards. It is an ordinary function, so its \<open>this\<close> is the script element: the test
  \<open>!this.shouldBlockScript || !this.shouldBlockScript(url)\<close> looks the method up on the
  element (\<open>own_method\<close>: \<open>None\<close> on a script element as the browser creates it), not on
  the blocker. The result says whether the URL is handed to the original setter, that
  is, whether the script is requested.
\<close>

definition src_setter_loads :: "(string \<Rightarrow> bool) option \<Rightarrow> string \<Rightarrow> bool" where
  "src_setter_loads own_method url =
     (case own_method of None \<Rightarrow> True | Some shouldBlockScript' \<Rightarrow> \<not> shouldBlockScript' url)"

text \<open>
  The rule the specification words: a load is suppressed exactly when an enabled rule of
  the resource's type matches the URL and the rule's category is not consented.
\<close>

definition spec_suppressed :: "(string \<Rightarrow> bool) \<Rightarrow> resource_type \<Rightarrow> AutoBlocker \<Rightarrow> string \<Rightarrow> bool" where
  "spec_suppressed consented t b url \<longleftrightarrow>
     list_ex (\<lambda>r. enabled r \<and> rtype r = t \<and> str_includes url (pattern r) \<and> \<not> consented (category r))
       (rules b)"


section \<open>Server: the TTL cache (utils, \<open>ModernCacheService\<close>)\<close>

text \<open>
  The map of the service and its configuration (\<open>CACHE_ENABLED\<close>, \<open>CACHE_TTL\<close> in
  seconds). An entry is the data and its expiry time in epoch milliseconds.
\<close>

record cache_service =
  cache :: "string \<rightharpoonup> (jsval \<times> int)"
  cfg_enabled :: bool
  cfg_ttl :: int

text \<open>\<open>get(key)\<close> at clock reading \<open>now\<close>; the result \<open>null\<close> is \<open>JNull\<close>.\<close>

definition cache_get :: "int \<Rightarrow> string \<Rightarrow> cache_service \<Rightarrow> jsval \<times> cache_service" where
  "cache_get now key c =
     (if \<not> cfg_enabled c then (JNull, c)
      else case cache c key of
             None \<Rightarrow> (JNull, c)
           | Some (data, expires) \<Rightarrow>
               if now > expires then (JNull, c\<lparr>cache := (cache c)(key := None)\<rparr>)
               else (data, c))"

text \<open>\<open>set(key, data, ttl)\<close>; the parameter \<open>ttl\<close> defaults to the configured one.\<close>

definition cache_set :: "int \<Rightarrow> string \<Rightarrow> jsval \<Rightarrow> int option \<Rightarrow> cache_service \<Rightarrow> cache_service" where
  "cache_set now key data ttl c =
     (if \<not> cfg_enabled c then c
      else c\<lparr>cache := (cache c)(key \<mapsto> (data, now + (case ttl of None \<Rightarrow> cfg_ttl c | Some t \<Rightarrow> t) * 1000))\<rparr>)"

definition cache_delete :: "string \<Rightarrow> cache_service \<Rightarrow> cache_service" where
  "cache_delete key c = (if \<not> cfg_enabled c then c else c\<lparr>cache := (cache c)(key := None)\<rparr>)"

definition cache_clear :: "cache_service \<Rightarrow> cache_service" where
  "cache_clear c = (if \<not> cfg_enabled c then c else c\<lparr>cache := Map.empty\<rparr>)"

definition cleanup :: "int \<Rightarrow> cache_service \<Rightarrow> cache_service" where
  "cleanup now c =
     c\<lparr>cache := (\<lambda>key. case cache c key of
                           None \<Rightarrow> None
                         | Some (data, expires) \<Rightarrow> if now > expires then None else Some (data, expires))\<rparr>"


section \<open>Server: rate limiting (backend/middleware/index.js, routes)\<close>

text \<open>\<open>config.api.rateLimit\<close>.\<close>

definition windowMs :: int where
  "windowMs = 15 * 60 * 1000"

definition maxRequests :: int where
  "maxRequests = 100"

text \<open>\<open>global.rateLimitStore\<close>: per client address, the count and the reset time.\<close>

type_synonym rate_store = "string \<rightharpoonup> (int \<times> int)"

datatype verdict = Next | TooManyRequests int

text \<open>\<open>Math.ceil(x / 1000)\<close> for an integer \<open>x\<close>.\<close>

definition ceil_div_1000 :: "int \<Rightarrow> int" where
  "ceil_div_1000 x = - ((- x) div 1000)"

text \<open>
  \<open>rateLimitMiddleware\<close> for a request of \<open>clientIp\<close> at clock reading \<open>now\<close>. The record
  read from the store is the stored object itself, so the reset of an elapsed window is
  seen by the store even when the request is then refused; a record created for a new
  client enters the store only with \<open>set\<close>.
\<close>

definition rateLimitMiddleware :: "int \<Rightarrow> int \<Rightarrow> string \<Rightarrow> int \<Rightarrow> rate_store \<Rightarrow> verdict \<times> rate_store" where
  "rateLimitMiddleware window limit clientIp now store =
     (let known = (store clientIp \<noteq> None);
          (count0, resetTime0) = (case store clientIp of None \<Rightarrow> (0, now + window) | Some d \<Rightarrow> d);
          (count, resetTime) = (if now > resetTime0 then (0, now + window) else (count0, resetTime0))
      in if count \<ge> limit
         then (TooManyRequests (ceil_div_1000 (resetTime - now)),
               if known then store(clientIp \<mapsto> (count, resetTime)) else store)
         else (Next, store(clientIp \<mapsto> (count + 1, resetTime))))"

text \<open>
  The routes of the router and whether \<open>rateLimitMiddleware\<close> is in their chain: the
  public routes have it, the admin routes and the health check do not.
\<close>

datatype route =
    GetLanguages
  | GetConfigByLanguage string
  | GetConfig
  | PostConsentLog
  | AdminGetAllConfigs
  | AdminPutConfig string
  | AdminDeleteConfig string
  | AdminAnalytics
  | Health

fun rate_limited :: "route \<Rightarrow> bool" where
  "rate_limited GetLanguages = True"
| "rate_limited (GetConfigByLanguage l) = True"
| "rate_limited GetConfig = True"
| "rate_limited PostConsentLog = True"
| "rate_limited AdminGetAllConfigs = False"
| "rate_limited (AdminPutConfig l) = False"
| "rate_limited (AdminDeleteConfig l) = False"
| "rate_limited AdminAnalytics = False"
| "rate_limited Health = False"

record request =
  req_ip :: string
  req_route :: route
  req_time :: int

text \<open>The limiter's part in serving one request, and a sequence of requests in arrival order.\<close>

definition limit_request :: "request \<Rightarrow> rate_store \<Rightarrow> verdict \<times> rate_store" where
  "limit_request r store =
     (if rate_limited (req_route r)
      then rateLimitMiddleware windowMs maxRequests (req_ip r) (req_time r) store
      else (Next, store))"

fun limit_requests :: "request list \<Rightarrow> rate_store \<Rightarrow> rate_store" where
  "limit_requests [] store = store"
| "limit_requests (r # rs) store = limit_requests rs (snd (limit_request r store))"

text \<open>The requests of a sequence that count against the budget of one client.\<close>

definition counted :: "string \<Rightarrow> request list \<Rightarrow> request list" where
  "counted ip rs = filter (\<lambda>r. req_ip r = ip \<and> rate_limited (req_route r)) rs"

text \<open>
  The TypeScript server hands the counting to the \<open>express-rate-limit\<close> package;
  \<open>createRateLimit\<close> itself fixes the \<open>skip\<close> predicate and the \<open>retryAfter\<close> of the
  message.
\<close>

definition createRateLimit_skip :: "string \<Rightarrow> bool" where
  "createRateLimit_skip path \<longleftrightarrow> path = ''/api/health''"

definition createRateLimit_retryAfter :: "int \<Rightarrow> int" where
  "createRateLimit_retryAfter window = ceil_div_1000 window"

section \<open>Server: validation of a configuration (utils, \<open>ValidationService\<close>)\<close>

subsection \<open>Strings\<close>

definition is_lower :: "char \<Rightarrow> bool" where
  "is_lower c \<longleftrightarrow> c \<in> set ''abcdefghijklmnopqrstuvwxyz''"

definition is_upper :: "char \<Rightarrow> bool" where
  "is_upper c \<longleftrightarrow> c \<in> set ''ABCDEFGHIJKLMNOPQRSTUVWXYZ''"

definition is_hex :: "char \<Rightarrow> bool" where
  "is_hex c \<longleftrightarrow> c \<in> set ''0123456789ABCDEFabcdef''"

definition is_space :: "char \<Rightarrow> bool" where
  "is_space c \<longleftrightarrow> c \<in> {CHR '' '', CHR 0x09, CHR 0x0A, CHR 0x0B, CHR 0x0C, CHR 0x0D}"

text \<open>\<open>toLowerCase()\<close> and \<open>trim()\<close>, on ASCII.\<close>

definition lower_char :: "char \<Rightarrow> char" where
  "lower_char c =
     (case map_of (zip ''ABCDEFGHIJKLMNOPQRSTUVWXYZ'' ''abcdefghijklmnopqrstuvwxyz'') c of
        None \<Rightarrow> c | Some l \<Rightarrow> l)"

definition toLowerCase :: "string \<Rightarrow> string" where
  "toLowerCase s = map lower_char s"

definition trim :: "string \<Rightarrow> string" where
  "trim s = rev (dropWhile is_space (rev (dropWhile is_space s)))"

text \<open>
  The three regular expressions of the schemas: \<open>/^#[0-9A-Fa-f]{6}$/\<close>,
  \<open>/^[a-z]{2}(-[a-z]{2})?$/\<close> and \<open>/^[A-Z]{2}$/\<close>. Without the \<open>m\<close> flag, \<open>^\<close> and \<open>$\<close>
  match at the two ends of the input only.
\<close>

datatype regex = HexColor | LangCode | CountryCode

fun matches :: "regex \<Rightarrow> string \<Rightarrow> bool" where
  "matches HexColor s =
     (case s of [] \<Rightarrow> False | c # hs \<Rightarrow> c = CHR ''#'' \<and> length hs = 6 \<and> list_all is_hex hs)"
| "matches LangCode s =
     ((length s = 2 \<and> list_all is_lower s) \<or>
      (length s = 5 \<and> list_all is_lower (take 2 s) \<and> s ! 2 = CHR ''-'' \<and> list_all is_lower (drop 3 s)))"
| "matches CountryCode s = (length s = 2 \<and> list_all is_upper s)"

subsection \<open>Schemas and their interpretation\<close>

text \<open>
  The schemas are data handed to the \<open>zod\<close> package. The constructors below are the ones
  the source uses; \<open>zparse\<close> is what \<open>safeParse\<close> does with them: it returns the issues
  found, each with its code and the path to the offending value, and the parsed value
  (defaults filled in, strings trimmed, unknown keys dropped), which is of use when there
  is no issue.
\<close>

datatype string_check = SMin nat | SMax nat | SRegex regex | STrim

datatype number_check = NInt | NMin rat | NMax rat

datatype zschema =
    ZString "string_check list"
  | ZNumber "number_check list"
  | ZBoolean
  | ZEnum "string list"
  | ZArray zschema
  | ZObject "(string \<times> zschema) list"
  | ZDefault zschema jsval
  | ZOptional zschema

datatype path_seg = Key string | Idx nat

datatype issue_code = invalid_type | invalid_string | too_small | too_big | invalid_enum_value

datatype issue = Issue issue_code "path_seg list"

fun path_of :: "issue \<Rightarrow> path_seg list" where
  "path_of (Issue c p) = p"

fun code_of :: "issue \<Rightarrow> issue_code" where
  "code_of (Issue c p) = c"

text \<open>The checks of a string schema run in the order written; \<open>trim\<close> rewrites the value for the checks after it.\<close>

fun string_checks :: "string_check list \<Rightarrow> path_seg list \<Rightarrow> string \<Rightarrow> issue list \<times> string" where
  "string_checks [] path s = ([], s)"
| "string_checks (SMin n # cs) path s =
     (let (is, out) = string_checks cs path s
      in ((if length s < n then [Issue too_small path] else []) @ is, out))"
| "string_checks (SMax n # cs) path s =
     (let (is, out) = string_checks cs path s
      in ((if length s > n then [Issue too_big path] else []) @ is, out))"
| "string_checks (SRegex r # cs) path s =
     (let (is, out) = string_checks cs path s
      in ((if \<not> matches r s then [Issue invalid_string path] else []) @ is, out))"
| "string_checks (STrim # cs) path s = string_checks cs path (trim s)"

definition is_integer :: "rat \<Rightarrow> bool" where
  "is_integer q \<longleftrightarrow> of_int \<lfloor>q\<rfloor> = q"

fun number_checks :: "number_check list \<Rightarrow> path_seg list \<Rightarrow> rat \<Rightarrow> issue list" where
  "number_checks [] path q = []"
| "number_checks (NInt # cs) path q =
     (if \<not> is_integer q then [Issue invalid_type path] else []) @ number_checks cs path q"
| "number_checks (NMin m # cs) path q =
     (if q < m then [Issue too_small path] else []) @ number_checks cs path q"
| "number_checks (NMax m # cs) path q =
     (if q > m then [Issue too_big path] else []) @ number_checks cs path q"

fun zparse :: "zschema \<Rightarrow> path_seg list \<Rightarrow> jsval \<Rightarrow> issue list \<times> jsval"
  and zparse_shape :: "(string \<times> zschema) list \<Rightarrow> path_seg list \<Rightarrow> jsval \<Rightarrow> (string \<times> issue list \<times> jsval) list"
  and zparse_items :: "zschema \<Rightarrow> path_seg list \<Rightarrow> nat \<Rightarrow> jsval list \<Rightarrow> (issue list \<times> jsval) list"
where
  "zparse (ZString cs) path v =
     (case v of
        JStr s \<Rightarrow> (let (is, out) = string_checks cs path s in (is, JStr out))
      | _ \<Rightarrow> ([Issue invalid_type path], JUndefined))"
| "zparse (ZNumber cs) path v =
     (case v of
        JNum q \<Rightarrow> (number_checks cs path q, JNum q)
      | _ \<Rightarrow> ([Issue invalid_type path], JUndefined))"
| "zparse ZBoolean path v =
     (case v of
        JBool b \<Rightarrow> ([], JBool b)
      | _ \<Rightarrow> ([Issue invalid_type path], JUndefined))"
| "zparse (ZEnum vals) path v =
     (case v of
        JStr s \<Rightarrow> (if s \<in> set vals then ([], JStr s) else ([Issue invalid_enum_value path], JUndefined))
      | _ \<Rightarrow> ([Issue invalid_type path], JUndefined))"
| "zparse (ZArray elem) path v =
     (case v of
        JArr xs \<Rightarrow> (let rs = zparse_items elem path 0 xs in (concat (map fst rs), JArr (map snd rs)))
      | _ \<Rightarrow> ([Issue invalid_type path], JUndefined))"
| "zparse (ZObject shape) path v =
     (case v of
        JObj fs \<Rightarrow>
          (let rs = zparse_shape shape path v
           in (concat (map (\<lambda>(k, is, out). is) rs),
               JObj (map (\<lambda>(k, is, out). (k, out))
                       (filter (\<lambda>(k, is, out). out \<noteq> JUndefined \<or> k \<in> fst ` set fs) rs))))
      | _ \<Rightarrow> ([Issue invalid_type path], JUndefined))"
| "zparse (ZDefault inner d) path v = zparse inner path (if v = JUndefined then d else v)"
| "zparse (ZOptional inner) path v = (if v = JUndefined then ([], JUndefined) else zparse inner path v)"
| "zparse_shape [] path v = []"
| "zparse_shape ((k, s) # rest) path v =
     (k, zparse s (path @ [Key k]) (get_prop v k)) # zparse_shape rest path v"
| "zparse_items elem path i [] = []"
| "zparse_items elem path i (x # xs) =
     zparse elem (path @ [Idx i]) x # zparse_items elem path (Suc i) xs"

subsection \<open>The schemas of the source\<close>

definition cookieCategorySchema :: zschema where
  "cookieCategorySchema = ZObject [
     (''name'', ZString [SMin 1, SMax 100, STrim]),
     (''description'', ZString [SMin 1, SMax 500, STrim]),
     (''required'', ZDefault ZBoolean (JBool False)),
     (''cookies'', ZDefault (ZArray (ZString [STrim])) (JArr [])),
     (''order'', ZDefault (ZNumber [NInt, NMin 0]) (JNum 0)),
     (''enabled'', ZDefault ZBoolean (JBool True))]"

definition uiConfigSchema :: zschema where
  "uiConfigSchema = ZObject [
     (''primaryColor'', ZDefault (ZString [SRegex HexColor]) (JStr ''#007bff'')),
     (''secondaryColor'', ZDefault (ZString [SRegex HexColor]) (JStr ''#6c757d'')),
     (''borderRadius'', ZDefault (ZString []) (JStr ''8px'')),
     (''fontFamily'', ZDefault (ZString []) (JStr ''system-ui, sans-serif'')),
     (''fontSize'', ZDefault (ZString []) (JStr ''14px'')),
     (''animation'', ZDefault ZBoolean (JBool True)),
     (''backdrop'', ZDefault ZBoolean (JBool True))]"

definition textConfigSchema :: zschema where
  "textConfigSchema = ZObject [
     (''title'', ZString [SMin 1, SMax 100, STrim]),
     (''description'', ZString [SMin 1, SMax 500, STrim]),
     (''acceptAll'', ZString [SMin 1, SMax 50, STrim]),
     (''rejectAll'', ZString [SMin 1, SMax 50, STrim]),
     (''customize'', ZString [SMin 1, SMax 50, STrim]),
     (''save'', ZString [SMin 1, SMax 50, STrim]),
     (''close'', ZString [SMin 1, SMax 50, STrim]),
     (''moreInfo'', ZString [SMin 1, SMax 50, STrim]),
     (''cookiePolicy'', ZString [SMin 1, SMax 50, STrim]),
     (''privacyPolicy'', ZString [SMin 1, SMax 50, STrim])]"

definition cookieSettingsSchema :: zschema where
  "cookieSettingsSchema = ZObject [
     (''name'', ZDefault (ZString [SMin 1, SMax 50, STrim]) (JStr ''ns-cookie-consent'')),
     (''expiry'', ZDefault (ZNumber [NInt, NMin 1, NMax 3650]) (JNum 365)),
     (''domain'', ZDefault (ZString [SMax 100, STrim]) (JStr [])),
     (''path'', ZDefault (ZString [SMax 100, STrim]) (JStr ''/'')),
     (''secure'', ZDefault ZBoolean (JBool False)),
     (''sameSite'', ZDefault (ZEnum [''Strict'', ''Lax'', ''None'']) (JStr ''Lax''))]"

definition cookieConfigSchema :: zschema where
  "cookieConfigSchema = ZObject [
     (''language'', ZString [SRegex LangCode]),
     (''country'', ZOptional (ZString [SRegex CountryCode])),
     (''region'', ZOptional (ZString [STrim])),
     (''texts'', textConfigSchema),
     (''categories'', ZObject [
        (''essential'', cookieCategorySchema),
        (''analytics'', cookieCategorySchema),
        (''marketing'', cookieCategorySchema),
        (''preferences'', cookieCategorySchema)]),
     (''ui'', uiConfigSchema),
     (''cookieSettings'', cookieSettingsSchema),
     (''enabled'', ZDefault ZBoolean (JBool True)),
     (''version'', ZDefault (ZString []) (JStr ''1.0.0''))]"

subsection \<open>\<open>ValidationService.validateConfig\<close>\<close>

text \<open>
  A field-level error: \<open>field\<close> is \<open>path.join('.')\<close>; the message text is the package's
  rendering of the issue, kept here as the issue's code.
\<close>

record validation_error =
  field :: string
  message :: issue_code

record validation_result =
  isValid :: bool
  errors :: "validation_error list"
  vdata :: jsval

fun seg_text :: "path_seg \<Rightarrow> string" where
  "seg_text (Key k) = k"
| "seg_text (Idx i) = show_nat i"

fun join_path :: "path_seg list \<Rightarrow> string" where
  "join_path [] = []"
| "join_path [p] = seg_text p"
| "join_path (p # q # ps) = seg_text p @ ''.'' @ join_path (q # ps)"

definition validateConfig :: "jsval \<Rightarrow> validation_result" where
  "validateConfig cfg =
     (let (issues, parsed) = zparse cookieConfigSchema [] cfg
      in if issues = [] then \<lparr> isValid = True, errors = [], vdata = parsed \<rparr>
         else \<lparr> isValid = False,
                errors = map (\<lambda>i. \<lparr> field = join_path (path_of i), message = code_of i \<rparr>) issues,
                vdata = JUndefined \<rparr>)"


subsection \<open>The default English configuration\<close>

text \<open>
  \<open>defaultConfigurations.en\<close>. Its texts, categories, theme and cookie settings are,
  value for value, the widget's defaults. \<open>example_body\<close> is a request body made from
  it: the language \<open>en\<close>, a theme that sets the primary color only, and an
  \<open>enabled\<close> flag.
\<close>

definition defaultConfigurations_en :: jsval where
  "defaultConfigurations_en = JObj [
     (''texts'', get_prop getDefaultConfig ''texts''),
     (''categories'', get_prop getDefaultConfig ''categories''),
     (''ui'', get_prop getDefaultConfig ''ui''),
     (''cookieSettings'', get_prop getDefaultConfig ''cookieSettings'')]"

definition example_body :: "jsval \<Rightarrow> jsval \<Rightarrow> jsval" where
  "example_body color flag = JObj [
     (''language'', JStr ''en''),
     (''texts'', get_prop defaultConfigurations_en ''texts''),
     (''categories'', get_prop defaultConfigurations_en ''categories''),
     (''ui'', JObj [(''primaryColor'', color)]),
     (''cookieSettings'', get_prop defaultConfigurations_en ''cookieSettings''),
     (''enabled'', flag)]"


section \<open>Server: the configuration controller (backend/src/controllers/index.ts)\<close>

text \<open>
  The collection of configuration documents behind the \<open>CookieConfig\<close> model, in
  insertion order, each document a JavaScript object; and the cache service. The
  document-store driver is outside the repository: of a write, the model keeps the
  fields the controller assigns and the unique index on \<open>language\<close>.
\<close>

record server =
  documents :: "jsval list"
  cacheService :: cache_service

datatype api_error =
    ValidationError string "validation_error list"
  | NotFoundError string
  | DuplicateKeyError

record api_response =
  success :: bool
  resp_data :: jsval
  resp_language :: string
  resp_source :: "string option"

fun find_index :: "('a \<Rightarrow> bool) \<Rightarrow> 'a list \<Rightarrow> nat option" where
  "find_index P [] = None"
| "find_index P (x # xs) = (if P x then Some 0 else map_option Suc (find_index P xs))"

text \<open>A query filter is a list of fields and the values they must have.\<close>

definition satisfies :: "(string \<times> jsval) list \<Rightarrow> jsval \<Rightarrow> bool" where
  "satisfies flt doc \<longleftrightarrow> list_all (\<lambda>(k, v). get_prop doc k = v) flt"

definition findOne :: "(string \<times> jsval) list \<Rightarrow> jsval list \<Rightarrow> jsval option" where
  "findOne flt docs = find (satisfies flt) docs"

text \<open>\<open>Object.assign(target, source)\<close> on a document.\<close>

definition object_assign :: "jsval \<Rightarrow> jsval \<Rightarrow> jsval" where
  "object_assign target source = JObj (fold (\<lambda>(k, v) fs. obj_set fs k v) (spread source) (spread target))"

text \<open>
  \<open>save()\<close>: the unique index refuses a document whose language another document of the
  collection has. \<open>slot\<close> is the position of the document being saved (\<open>None\<close>: a new one).
\<close>

definition language_taken :: "nat option \<Rightarrow> jsval \<Rightarrow> jsval list \<Rightarrow> bool" where
  "language_taken slot doc docs \<longleftrightarrow>
     list_ex (\<lambda>(i, d). Some i \<noteq> slot \<and> get_prop d ''language'' = get_prop doc ''language'')
       (enumerate 0 docs)"

definition save :: "nat option \<Rightarrow> jsval \<Rightarrow> jsval list \<Rightarrow> api_error + jsval list" where
  "save slot doc docs =
     (if language_taken slot doc docs then Inl DuplicateKeyError
      else case slot of None \<Rightarrow> Inr (docs @ [doc]) | Some i \<Rightarrow> Inr (docs[i := doc]))"

definition cacheKey :: "string \<Rightarrow> string" where
  "cacheKey lang = ''cookie-config-'' @ lang"

text \<open>
  \<open>getConfigByLanguage\<close> for \<open>req.params.language = lang\<close> at clock reading \<open>now\<close>.
  A thrown error goes to \<open>next(error)\<close> and is the \<open>Inl\<close> result.
\<close>

definition getConfigByLanguage :: "string \<Rightarrow> int \<Rightarrow> server \<Rightarrow> (api_error + api_response) \<times> server" where
  "getConfigByLanguage lang now s =
     (let (cached, c1) = (if cfg_enabled (cacheService s)
                          then cache_get now (cacheKey lang) (cacheService s)
                          else (JNull, cacheService s))
      in if cfg_enabled (cacheService s) \<and> truthy cached
         then (Inr \<lparr> success = True, resp_data = cached, resp_language = lang,
                     resp_source = Some ''cache'' \<rparr>,
               s\<lparr>cacheService := c1\<rparr>)
         else case findOne [(''language'', JStr (toLowerCase lang)), (''enabled'', JBool True)]
                     (documents s) of
                None \<Rightarrow>
                  (Inl (NotFoundError (''Configuration for language '' @ [CHR 0x27] @ lang @ [CHR 0x27])),
                   s\<lparr>cacheService := c1\<rparr>)
              | Some cfg \<Rightarrow>
                  (Inr \<lparr> success = True, resp_data = cfg, resp_language = lang,
                         resp_source = Some ''database'' \<rparr>,
                   s\<lparr>cacheService :=
                        (if cfg_enabled c1 then cache_set now (cacheKey lang) cfg (Some 300) c1 else c1)\<rparr>))"

text \<open>
  \<open>createOrUpdateConfig\<close> for \<open>req.params.language = lang\<close>, \<open>req.body = body\<close> and
  \<open>req.user?.id = user\<close>. The module the controller imports \<open>validateCookieConfig\<close> from is
  not among the sources; it is the parameter \<open>validate\<close>, for which the validation
  service's \<open>validateConfig\<close> is taken.
\<close>

definition createOrUpdateConfig ::
  "(jsval \<Rightarrow> validation_result) \<Rightarrow> string \<Rightarrow> jsval \<Rightarrow> jsval \<Rightarrow> server \<Rightarrow> (api_error + api_response) \<times> server" where
  "createOrUpdateConfig validate lang body user s =
     (let v = validate body in
      if \<not> isValid v then (Inl (ValidationError ''Invalid configuration format'' (errors v)), s)
      else
        let slot = find_index (satisfies [(''language'', JStr (toLowerCase lang))]) (documents s);
            cfg = (case slot of
                     Some i \<Rightarrow>
                       JObj (obj_set (spread (object_assign (documents s ! i) (vdata v))) ''updatedBy'' user)
                   | None \<Rightarrow>
                       JObj (obj_set (obj_set (spread (vdata v)) ''language'' (JStr (toLowerCase lang)))
                               ''createdBy'' user))
        in case save slot cfg (documents s) of
             Inl e \<Rightarrow> (Inl e, s)
           | Inr docs \<Rightarrow>
               (Inr \<lparr> success = True, resp_data = cfg, resp_language = lang, resp_source = None \<rparr>,
                s\<lparr>documents := docs,
                   cacheService :=
                     (if cfg_enabled (cacheService s)
                      then cache_delete (cacheKey lang) (cacheService s)
                      else cacheService s)\<rparr>))"

text \<open>
  A server for the examples: the collection holds one enabled English document of an
  earlier version, and the cache holds that document under the key of \<open>en\<close>, fresh for
  300 seconds from clock reading 0.
\<close>

definition old_document :: jsval where
  "old_document = JObj [(''language'', JStr ''en''), (''enabled'', JBool True), (''version'', JStr ''0.9.0'')]"

definition cached_server :: server where
  "cached_server =
     \<lparr> documents = [old_document],
       cacheService = \<lparr> cache = [''cookie-config-en'' \<mapsto> (old_document, 300000)],
                        cfg_enabled = True, cfg_ttl = 300 \<rparr> \<rparr>"



section \<open>Verification: \<open>deepMerge\<close>\<close>

lemma map_of_replace:
  "map_of (map (\<lambda>(k', v'). (k', if k' = k then v else v')) fs) x =
     (case map_of fs x of None \<Rightarrow> None | Some v' \<Rightarrow> Some (if x = k then v else v'))"
  by (induction fs) auto

lemma map_of_obj_set: "map_of (obj_set fs k v) = (map_of fs)(k \<mapsto> v)"
proof (cases "k \<in> fst ` set fs")
  case True
  then obtain w where "map_of fs k = Some w"
    by (cases "map_of fs k") (auto simp: map_of_eq_None_iff)
  with True show ?thesis
    by (auto simp: obj_set_def map_of_replace fun_eq_iff split: option.splits)
next
  case False
  then have "map_of fs k = None" by (simp add: map_of_eq_None_iff)
  with False show ?thesis
    by (auto simp: obj_set_def fun_eq_iff map_add_def split: option.splits)
qed

text \<open>Once the loop has thrown or left the model, it stays there.\<close>

lemma merge_keys_stops:
  "merge_keys target Throws source = Throws"
  "merge_keys target Unmodelled source = Unmodelled"
  by (induction source) auto

lemma assign_own:
  "key \<noteq> ''__proto__'' \<Longrightarrow> assign r key v = Known (fst r, obj_set (snd r) key v)"
  by (simp add: assign_def)

lemma read_target_object:
  "read_target (JObj t) key = Known tv \<Longrightarrow> key \<noteq> ''__proto__'' \<Longrightarrow> tv = get_prop (JObj t) key"
  by (auto split: option.splits if_splits)

text \<open>One round of the loop that ends with a result, for a key other than \<open>__proto__\<close>.\<close>

lemma merge_keys_round:
  assumes "merge_keys target (Known (None, result)) ((key, sv) # rest) = Known r"
      and "key \<noteq> ''__proto__''"
  shows "\<exists>result'.
           merge_keys target (Known (None, result')) rest = Known r \<and>
           (if is_plain_object sv then
              \<exists>tv ms. read_target target key = Known tv \<and>
                      deepMerge (js_or tv (JObj [])) (fields_of sv) = Known (None, ms) \<and>
                      result' = obj_set result key (JObj ms)
            else if sv \<noteq> JUndefined then result' = obj_set result key sv
            else result' = result)"
proof (cases "is_plain_object sv")
  case False
  show ?thesis
  proof (cases "sv = JUndefined")
    case True
    with assms False have "merge_keys target (Known (None, result)) rest = Known r"
      by (simp del: deepMerge.simps)
    with False True show ?thesis by auto
  next
    case defined: False
    with assms False have "merge_keys target (Known (None, obj_set result key sv)) rest = Known r"
      by (simp add: assign_own del: deepMerge.simps)
    with False defined show ?thesis by auto
  qed
next
  case True
  show ?thesis
  proof (cases "read_target target key")
    case (Known tv)
    show ?thesis
    proof (cases "deepMerge (js_or tv (JObj [])) (fields_of sv)")
      case inner: (Known m)
      show ?thesis
      proof (cases "fst m = None")
        case plain: True
        then have m: "m = (None, snd m)" by (cases m) simp
        from assms True Known inner plain
        have "merge_keys target (Known (None, obj_set result key (JObj (snd m)))) rest = Known r"
          by (simp add: assign_own del: deepMerge.simps)
        moreover from inner m
        have "deepMerge (js_or tv (JObj [])) (fields_of sv) = Known (None, snd m)" by simp
        ultimately show ?thesis
          using True Known by (intro exI [of _ "obj_set result key (JObj (snd m))"]) auto
      next
        case False
        with assms True Known inner show ?thesis
          by (simp add: merge_keys_stops del: deepMerge.simps)
      qed
    next
      case Throws
      with assms True Known show ?thesis by (simp add: merge_keys_stops del: deepMerge.simps)
    next
      case Unmodelled
      with assms True Known show ?thesis by (simp add: merge_keys_stops del: deepMerge.simps)
    qed
  next
    case Throws
    with assms True show ?thesis by (simp add: merge_keys_stops del: deepMerge.simps)
  next
    case Unmodelled
    with assms True show ?thesis by (simp add: merge_keys_stops del: deepMerge.simps)
  qed
qed

text \<open>
  What the loop leaves under a key when no key of the source is \<open>__proto__\<close>: the
  prototype of the result is untouched, the keys of the source are visited once each,
  and a later key does not disturb an earlier one.
\<close>

lemma merge_keys_lookup:
  assumes "distinct (map fst source)" and "''__proto__'' \<notin> fst ` set source"
      and "merge_keys target (Known (None, result)) source = Known r"
  shows "fst r = None \<and>
         (case map_of source k of
            None \<Rightarrow> map_of (snd r) k = map_of result k
          | Some sv \<Rightarrow>
              if is_plain_object sv then
                \<exists>tv ms. read_target target k = Known tv \<and>
                        deepMerge (js_or tv (JObj [])) (fields_of sv) = Known (None, ms) \<and>
                        map_of (snd r) k = Some (JObj ms)
              else if sv \<noteq> JUndefined then map_of (snd r) k = Some sv
              else map_of (snd r) k = map_of result k)"
  using assms
proof (induction source arbitrary: result)
  case Nil
  then show ?case by auto
next
  case (Cons e rest)
  obtain key sv where e: "e = (key, sv)" by (cases e)
  from Cons.prems(1,2) e have d: "distinct (map fst rest)" and nk: "key \<notin> fst ` set rest"
    and np: "''__proto__'' \<notin> fst ` set rest" and kp: "key \<noteq> ''__proto__''"
    by auto
  from nk have none: "map_of rest key = None" by (simp add: map_of_eq_None_iff)
  from Cons.prems(3) e have "merge_keys target (Known (None, result)) ((key, sv) # rest) = Known r"
    by simp
  from merge_keys_round [OF this kp] obtain result' where
    loop: "merge_keys target (Known (None, result')) rest = Known r"
    and how: "if is_plain_object sv then
                \<exists>tv ms. read_target target key = Known tv \<and>
                        deepMerge (js_or tv (JObj [])) (fields_of sv) = Known (None, ms) \<and>
                        result' = obj_set result key (JObj ms)
              else if sv \<noteq> JUndefined then result' = obj_set result key sv
              else result' = result"
    by blast
  note IH = Cons.IH [OF d np loop]
  show ?case
  proof (cases "k = key")
    case True
    with IH none have r: "fst r = None" "map_of (snd r) k = map_of result' k"
      by simp_all
    show ?thesis
    proof (cases "is_plain_object sv")
      case plain: True
      with how obtain tv ms where
        "read_target target key = Known tv"
        "deepMerge (js_or tv (JObj [])) (fields_of sv) = Known (None, ms)"
        "result' = obj_set result key (JObj ms)"
        by auto
      with r True plain show ?thesis
        unfolding e by (simp add: map_of_obj_set del: deepMerge.simps)
    next
      case False
      with r True how show ?thesis
        unfolding e by (cases "sv = JUndefined") (simp_all add: map_of_obj_set del: deepMerge.simps)
    qed
  next
    case False
    from how False have "map_of result' k = map_of result k"
      by (auto simp: map_of_obj_set simp del: deepMerge.simps split: if_splits)
    moreover have "\<not> is_plain_object JUndefined" by (simp add: is_plain_object_def)
    ultimately show ?thesis
      using IH False unfolding e
      by (cases "map_of rest k") (auto simp del: deepMerge.simps)
  qed
qed

text \<open>
  For a target object \<open>t\<close> and a source object whose keys are distinct (as the keys of an
  object are) and do not include \<open>__proto__\<close>, a merge that has a result in the model
  gives an object with the prototype of every object literal, which holds under every
  key \<open>k\<close>: the target's value where the source's value is \<open>undefined\<close> (the key missing,
  or present with the value \<open>undefined\<close>); the merge of the target's value (or of \<open>{}\<close>
  where that is falsy) with the source's value where the latter is a non-array object;
  and the source's value itself where it is anything else: an array, a primitive,
  \<open>null\<close> or a function.
\<close>

lemma deepMerge_lookup:
  assumes "distinct (map fst source)" and "''__proto__'' \<notin> fst ` set source"
      and "deepMerge (JObj t) source = Known r"
  shows "fst r = None"
    and "get_prop (JObj source) k = JUndefined \<Longrightarrow> merged_get r k = get_prop (JObj t) k"
    and "is_plain_object (get_prop (JObj source) k) \<Longrightarrow>
           \<exists>ms. deepMerge (js_or (get_prop (JObj t) k) (JObj [])) (fields_of (get_prop (JObj source) k)) =
                  Known (None, ms) \<and>
                merged_get r k = JObj ms"
    and "get_prop (JObj source) k \<noteq> JUndefined \<Longrightarrow> \<not> is_plain_object (get_prop (JObj source) k) \<Longrightarrow>
           merged_get r k = get_prop (JObj source) k"
proof -
  from assms(3) have loop: "merge_keys (JObj t) (Known (None, t)) source = Known r"
    by simp
  note L = merge_keys_lookup [OF assms(1,2) loop, of k]
  from L show none: "fst r = None" by simp
  then have r: "r = (None, snd r)" by (cases r) simp
  have get: "merged_get r k = (case map_of (snd r) k of None \<Rightarrow> JUndefined | Some v \<Rightarrow> v)"
    by (subst r) simp
  show "merged_get r k = get_prop (JObj t) k" if "get_prop (JObj source) k = JUndefined"
  proof (cases "map_of source k")
    case None
    with L get show ?thesis by simp
  next
    case (Some sv)
    with that have "sv = JUndefined" by simp
    with L Some get show ?thesis by (simp add: is_plain_object_def)
  qed
  show "\<exists>ms. deepMerge (js_or (get_prop (JObj t) k) (JObj [])) (fields_of (get_prop (JObj source) k)) =
               Known (None, ms) \<and> merged_get r k = JObj ms"
    if plain: "is_plain_object (get_prop (JObj source) k)"
  proof (cases "map_of source k")
    case None
    with plain show ?thesis by (simp add: is_plain_object_def)
  next
    case (Some sv)
    with plain have p: "is_plain_object sv" by simp
    from Some have "(k, sv) \<in> set source" by (rule map_of_SomeD)
    with assms(2) have kp: "k \<noteq> ''__proto__''" by force
    from L Some p obtain tv ms where
      rd: "read_target (JObj t) k = Known tv"
      and mg: "deepMerge (js_or tv (JObj [])) (fields_of sv) = Known (None, ms)"
      and mp: "map_of (snd r) k = Some (JObj ms)"
      by (auto simp del: deepMerge.simps)
    from rd kp have "tv = get_prop (JObj t) k" by (rule read_target_object)
    with mg mp Some get show ?thesis by (auto simp del: deepMerge.simps)
  qed
  show "merged_get r k = get_prop (JObj source) k"
    if "get_prop (JObj source) k \<noteq> JUndefined" "\<not> is_plain_object (get_prop (JObj source) k)"
  proof (cases "map_of source k")
    case None
    with that show ?thesis by simp
  next
    case (Some sv)
    with that L get show ?thesis by (simp del: deepMerge.simps)
  qed
qed

text \<open>An instance: an explicit \<open>undefined\<close> keeps the default, an array replaces it.\<close>

lemma deepMerge_example:
  "deepMerge (JObj [(''theme'', JStr ''light''), (''tags'', JArr [JStr ''a''])])
     [(''theme'', JUndefined), (''ui'', JObj [(''animation'', JBool False)]), (''tags'', JArr [])] =
   Known (None, [(''theme'', JStr ''light''), (''tags'', JArr []),
                 (''ui'', JObj [(''animation'', JBool False)])])"
  by code_simp

text \<open>
  C10 fails on the code. The source is what \<open>JSON.parse\<close> gives for the text
  \<open>{"__proto__": {"polluted": true}}\<close>, an object with the own key \<open>__proto__\<close>, and the
  target is \<open>{}\<close>. The key \<open>polluted\<close> is \<open>undefined\<close> in the target and in the source,
  so the merged object should have it \<open>undefined\<close> as the target has. The loop visits
  \<open>__proto__\<close>, merges the value found there into a copy, and assigns the copy to
  \<open>result['__proto__']\<close>: the merged object gets no own property and a new prototype,
  and reads \<open>polluted\<close> as \<open>true\<close>.
\<close>

theorem deepMerge_replaces_prototype:
  "deepMerge (JObj []) [(''__proto__'', JObj [(''polluted'', JBool True)])] =
     Known (Some (JObj [(''polluted'', JBool True)]), []) \<and>
   merged_get (Some (JObj [(''polluted'', JBool True)]), []) ''polluted'' = JBool True \<and>
   get_prop (JObj []) ''polluted'' = JUndefined \<and>
   get_prop (JObj [(''__proto__'', JObj [(''polluted'', JBool True)])]) ''polluted'' = JUndefined"
  by code_simp


section \<open>Verification: the consent widget\<close>

text \<open>Without a user configuration the merged configuration is the default one.\<close>

lemma mergeConfig_empty: "mergeConfig [] = Known getDefaultConfig"
  by (simp add: mergeConfig_def getDefaultConfig_def)

lemma CookiePlugin_default: "CookiePlugin parse [] jar = Known (construct parse getDefaultConfig jar)"
  by (simp add: CookiePlugin_def mergeConfig_empty)

lemma mergeConfig_essential_optional:
  "mergeConfig [(''categories'', JObj [(''essential'', JObj [(''required'', JBool False)])])] =
     Known essential_optional_config"
  by code_simp

text \<open>Hiding the bar or the modal and calling a hook leave the record and the cookie alone.\<close>

lemma after_call_hook:
  "consent (call_hook name c p) = consent p" "cookie (call_hook name c p) = cookie p"
  by (simp_all add: call_hook_def)

lemma after_hideModal:
  "consent (hideModal p) = consent p" "cookie (hideModal p) = cookie p"
  by (simp_all add: hideModal_def split: option.splits)

lemma after_hideCookieBar:
  "consent (hideCookieBar p) = consent p" "cookie (hideCookieBar p) = cookie p"
  "config (hideCookieBar p) = config p" "modal (hideCookieBar p) = modal p"
  by (simp_all add: hideCookieBar_def)

lemmas after_effects = after_call_hook after_hideModal after_hideCookieBar

lemma after_saveConsent:
  "consent (snd (saveConsent cookies_set stringify c p)) = c"
  "cookie (snd (saveConsent cookies_set stringify c p)) =
     (case cookies_set (config p) (stringify c) (cookie p) of
        WriteThrows \<Rightarrow> cookie p
      | Jar entry \<Rightarrow> entry)"
  by (simp_all add: saveConsent_def split: jar_write.splits)

text \<open>
  \<open>saveConsent\<close> holds the record it is given, and the text it hands to the cookie
  write is that of this record: the jar then holds what the write leaves there, or what
  it held before where the write throws.
\<close>

lemma saveConsent_record:
  "consent (snd (saveConsent cookies_set stringify c p)) = c \<and>
   cookie (snd (saveConsent cookies_set stringify c p)) =
     (case cookies_set (config p) (stringify c) (cookie p) of
        WriteThrows \<Rightarrow> cookie p
      | Jar entry \<Rightarrow> entry)"
  by (simp add: after_saveConsent)

text \<open>
  C2. The record that \<open>acceptAll\<close> makes and holds has the four categories true; the
  record of \<open>rejectAll\<close> has \<open>essential\<close> true and the three others false.
\<close>

theorem acceptAll_rejectAll_categories:
  "get_prop (consent (acceptAll cookies_set stringify now p)) ''categories'' =
     JObj [(''essential'', JBool True), (''analytics'', JBool True),
           (''marketing'', JBool True), (''preferences'', JBool True)] \<and>
   get_prop (consent (rejectAll cookies_set stringify now p)) ''categories'' =
     JObj [(''essential'', JBool True), (''analytics'', JBool False),
           (''marketing'', JBool False), (''preferences'', JBool False)]"
  by (simp add: acceptAll_def rejectAll_def Let_def applyConsent_def after_effects after_saveConsent)

subsection \<open>The essential category\<close>








subsection \<open>Malformed stored consent\<close>

lemma init_without_consent:
  "consent p = JNull \<Longrightarrow>
   init p = (let p1 = (if truthy (get_prop (config p) ''enabled'') \<and> truthy (get_prop (config p) ''autoShow'')
                       then showCookieBar p else p)
             in if truthy (get_prop (config p) ''enabled'') \<and> truthy (get_prop (config p) ''showOnScroll'')
                then p1\<lparr>scrollListener := True\<rparr> else p1)"
  by (simp add: init_def hasConsent_def Let_def showCookieBar_def)

text \<open>
  Where the cookie text does not parse, or parses to a value that is not an object,
  has no timestamp of type number, no version of type string, or no categories field
  that is a non-null object in the sense of \<open>typeof\<close>, \<open>loadConsent\<close> returns \<open>null\<close>,
  as it does for no cookie, and the constructor does what it does on a page without the
  cookie, the jar itself apart: the plugin holds no consent, and the bar is there
  exactly when the configuration is enabled with \<open>autoShow\<close> and has the texts and the
  theme the bar is built from.
\<close>

lemma rejected_consent_is_no_consent:
  assumes "parse text = None \<or> (\<exists>c. parse text = Some c \<and> \<not> isValidConsent c)"
  shows "loadConsent parse (Some text) = JNull"
    and "loadConsent parse (Some text) = loadConsent parse None"
    and "construct parse cfg (Some text) =
           map_sum id (\<lambda>p. p\<lparr>cookie := Some text\<rparr>) (construct parse cfg None)"
    and "case construct parse cfg (Some text) of
           Inl e \<Rightarrow> throws_on_read (get_prop cfg ''cookieSettings'')
         | Inr p \<Rightarrow>
             consent p = JNull \<and>
             cookieBar p =
               (truthy (get_prop cfg ''enabled'') \<and>
                truthy (get_prop cfg ''autoShow'') \<and>
                \<not> throws_on_read (get_prop cfg ''texts'') \<and>
                \<not> throws_on_read (get_prop cfg ''ui''))"
proof -
  from assms show l: "loadConsent parse (Some text) = JNull"
    by (auto simp: loadConsent_def)
  have n: "loadConsent parse None = JNull"
    by (simp add: loadConsent_def)
  from l n show "loadConsent parse (Some text) = loadConsent parse None" by simp
  show "construct parse cfg (Some text) =
           map_sum id (\<lambda>p. p\<lparr>cookie := Some text\<rparr>) (construct parse cfg None)"
    by (auto simp: l n construct_def init_without_consent Let_def showCookieBar_def)
  show "case construct parse cfg (Some text) of
           Inl e \<Rightarrow> throws_on_read (get_prop cfg ''cookieSettings'')
         | Inr p \<Rightarrow>
             consent p = JNull \<and>
             cookieBar p =
               (truthy (get_prop cfg ''enabled'') \<and>
                truthy (get_prop cfg ''autoShow'') \<and>
                \<not> throws_on_read (get_prop cfg ''texts'') \<and>
                \<not> throws_on_read (get_prop cfg ''ui''))"
    by (auto simp: l n construct_def init_without_consent Let_def showCookieBar_def)
qed

text \<open>An instance: the cookie holds \<open>{}\<close>, and the banner is shown.\<close>

lemma empty_object_is_no_consent:
  "loadConsent parse_sample (Some ''{}'') = JNull \<and>
   (case construct parse_sample getDefaultConfig (Some ''{}'') of
      Inl e \<Rightarrow> False
    | Inr p \<Rightarrow> \<not> hasConsent p \<and> cookieBar p)"
  by code_simp

text \<open>
  C4 fails on the code. The consent cookie holds
  \<open>{"timestamp":1,"version":"1.0.0","categories":[]}\<close>: valid JSON with a numeric
  timestamp and a string version, whose categories field is an array and not a mapping
  from category names to booleans. \<open>typeof [] === 'object'\<close>, so \<open>isValidConsent\<close>
  accepts the value and \<open>loadConsent\<close> returns it. The plugin, constructed with the
  default configuration, then holds consent and shows no banner, where on the same page
  without the cookie it holds none and shows the banner.
\<close>

theorem array_categories_loaded_as_consent:
  "loadConsent parse_sample (Some array_categories_text) = array_categories_record \<and>
   (case construct parse_sample getDefaultConfig (Some array_categories_text) of
      Inl e \<Rightarrow> False
    | Inr p \<Rightarrow> consent p = array_categories_record \<and> hasConsent p \<and> \<not> cookieBar p) \<and>
   (case construct parse_sample getDefaultConfig None of
      Inl e \<Rightarrow> False
    | Inr p \<Rightarrow> \<not> hasConsent p \<and> cookieBar p)"
  by code_simp


section \<open>Verification: configuration fetch of the widget\<close>









section \<open>Verification: the auto-blocker\<close>

text \<open>What \<open>shouldBlockScript\<close> decides: the blocker is enabled and an enabled script rule matches.\<close>

lemma shouldBlockScript_iff:
  "shouldBlockScript b url \<longleftrightarrow>
     isEnabled b \<and> (\<exists>r \<in> set (rules b). enabled r \<and> rtype r = Script \<and> str_includes url (pattern r))"
  by (simp add: shouldBlockScript_def shouldBlock_def list_ex_iff)

text \<open>
  C3 fails on the code. With the default rules and blocking enabled, the URL of the
  Google Analytics script, and the analytics category consented: \<open>shouldBlockScript\<close>
  says block, where the specification's rule says load; and the installed \<open>src\<close> setter
  loads the script, as it loads every script, since a script element has no
  \<open>shouldBlockScript\<close> of its own.
\<close>

theorem blocker_ignores_consent:
  "shouldBlockScript (enable newAutoBlocker) ''https://www.google-analytics.com/analytics.js'' \<and>
   \<not> spec_suppressed (\<lambda>c. c = ''analytics'') Script (enable newAutoBlocker)
       ''https://www.google-analytics.com/analytics.js'' \<and>
   src_setter_loads None ''https://www.google-analytics.com/analytics.js'' \<and>
   spec_suppressed (\<lambda>c. False) Script (enable newAutoBlocker)
       ''https://www.google-analytics.com/analytics.js''"
  by code_simp


section \<open>Verification: the server's cache\<close>

text \<open>
  C9. With caching enabled: after \<open>set\<close> at time \<open>t0\<close> with a time to live of \<open>life\<close>
  milliseconds (the \<open>ttl\<close> given, or the configured one, times 1000), a \<open>get\<close> more than
  \<open>life\<close> later returns \<open>null\<close> and leaves the map without the key, and a \<open>get\<close> up to
  \<open>life\<close> later returns the stored data and changes nothing; and whatever the map
  holds, a \<open>get\<close> does not return the data of an entry whose expiry time has passed.
  With caching disabled, \<open>get\<close> returns \<open>null\<close> and \<open>set\<close> stores nothing.
\<close>

theorem cache_serves_no_expired_entry:
  "(cfg_enabled c \<longrightarrow>
      (let life = (case ttl of None \<Rightarrow> cfg_ttl c | Some t \<Rightarrow> t) * 1000;
           c1 = cache_set t0 key d ttl c
       in (now - t0 > life \<longrightarrow>
             cache_get now key c1 = (JNull, c1\<lparr>cache := (cache c1)(key := None)\<rparr>)) \<and>
          (now - t0 \<le> life \<longrightarrow> cache_get now key c1 = (d, c1))) \<and>
      (\<forall>e d'. cache c key = Some (d', e) \<and> now > e \<longrightarrow>
             fst (cache_get now key c) = JNull \<and> cache (snd (cache_get now key c)) key = None)) \<and>
   (\<not> cfg_enabled c \<longrightarrow> cache_get now key c = (JNull, c) \<and> cache_set t0 key d ttl c = c)"
  by (auto simp: cache_get_def cache_set_def Let_def)

theorem cache_serves_no_expired_entry_witness:
  "cfg_enabled \<lparr> cache = Map.empty, cfg_enabled = True, cfg_ttl = 300 \<rparr> \<and>
   (300001 :: int) - 0 > 300 * 1000 \<and>
   fst (cache_get 300001 ''cookie-config-en''
          (cache_set 0 ''cookie-config-en'' (JStr ''doc'') None
             \<lparr> cache = Map.empty, cfg_enabled = True, cfg_ttl = 300 \<rparr>)) = JNull \<and>
   (300000 :: int) - 0 \<le> 300 * 1000 \<and>
   fst (cache_get 300000 ''cookie-config-en''
          (cache_set 0 ''cookie-config-en'' (JStr ''doc'') None
             \<lparr> cache = Map.empty, cfg_enabled = True, cfg_ttl = 300 \<rparr>)) = JStr ''doc'' \<and>
   \<not> cfg_enabled \<lparr> cache = Map.empty, cfg_enabled = False, cfg_ttl = 300 \<rparr> \<and>
   cache_set 0 ''cookie-config-en'' (JStr ''doc'') None
     \<lparr> cache = Map.empty, cfg_enabled = False, cfg_ttl = 300 \<rparr> =
     \<lparr> cache = Map.empty, cfg_enabled = False, cfg_ttl = 300 \<rparr>"
  using cache_serves_no_expired_entry
          [where c = "\<lparr> cache = Map.empty, cfg_enabled = True, cfg_ttl = 300 \<rparr>" and ttl = None
             and now = 300001 and ?t0.0 = 0 and key = "''cookie-config-en''" and d = "JStr ''doc''"]
        cache_serves_no_expired_entry
          [where c = "\<lparr> cache = Map.empty, cfg_enabled = True, cfg_ttl = 300 \<rparr>" and ttl = None
             and now = 300000 and ?t0.0 = 0 and key = "''cookie-config-en''" and d = "JStr ''doc''"]
        cache_serves_no_expired_entry
          [where c = "\<lparr> cache = Map.empty, cfg_enabled = False, cfg_ttl = 300 \<rparr>" and ttl = None
             and now = 0 and ?t0.0 = 0 and key = "''cookie-config-en''" and d = "JStr ''doc''"]
  by (simp add: Let_def)

section \<open>Verification: rate limiting\<close>

lemma rate_in_window:
  assumes "store ip = Some (c, R)" and "now \<le> R"
  shows "rateLimitMiddleware w budget ip now store =
           (if c \<ge> budget then (TooManyRequests (ceil_div_1000 (R - now)), store(ip \<mapsto> (c, R)))
            else (Next, store(ip \<mapsto> (c + 1, R))))"
  using assms by (simp add: rateLimitMiddleware_def)

text \<open>
  A request that finds no record of its client, or a record whose reset time has passed,
  opens a window: it is passed on and the record counts it as the first of a window that
  ends \<open>w\<close> later.
\<close>

lemma rate_first_request:
  assumes "store ip = None \<or> (\<exists>c R. store ip = Some (c, R) \<and> R < now)" and "0 < budget"
  shows "rateLimitMiddleware w budget ip now store = (Next, store(ip \<mapsto> (1, now + w)))"
  using assms by (auto simp: rateLimitMiddleware_def)

lemma rate_other_client:
  "ip' \<noteq> ip \<Longrightarrow> snd (rateLimitMiddleware w budget ip' now store) ip = store ip"
  by (simp add: rateLimitMiddleware_def Let_def split: prod.splits option.splits)

lemma limit_request_not_counted:
  assumes "\<not> (req_ip r = ip \<and> rate_limited (req_route r))"
  shows "snd (limit_request r store) ip = store ip"
proof (cases "rate_limited (req_route r)")
  case True
  with assms have "req_ip r \<noteq> ip" by simp
  with True show ?thesis by (simp add: limit_request_def rate_other_client)
next
  case False
  then show ?thesis by (simp add: limit_request_def)
qed

text \<open>Inside an open window the count of a client grows by one per counted request, up to the limit.\<close>

lemma window_count:
  assumes "store ip = Some (c, R)" and "c \<le> maxRequests"
      and "\<forall>r \<in> set (counted ip rs). req_time r \<le> R"
  shows "limit_requests rs store ip = Some (min (c + int (length (counted ip rs))) maxRequests, R)"
  using assms
proof (induction rs arbitrary: store c)
  case Nil
  then show ?case by (simp add: counted_def)
next
  case (Cons r rs)
  show ?case
  proof (cases "req_ip r = ip \<and> rate_limited (req_route r)")
    case True
    with Cons.prems(3) have t: "req_time r \<le> R" and rest: "\<forall>r \<in> set (counted ip rs). req_time r \<le> R"
      by (simp_all add: counted_def)
    from True have cnt: "counted ip (r # rs) = r # counted ip rs" by (simp add: counted_def)
    show ?thesis
    proof (cases "c \<ge> maxRequests")
      case full: True
      with Cons.prems(2) have c: "c = maxRequests" by simp
      from True Cons.prems(1) t full
      have "snd (limit_request r store) ip = Some (c, R)"
        by (simp add: limit_request_def rate_in_window)
      from Cons.IH [where store = "snd (limit_request r store)" and c = c, OF this Cons.prems(2) rest] c cnt
      show ?thesis by simp
    next
      case room: False
      with True Cons.prems(1) t
      have "snd (limit_request r store) ip = Some (c + 1, R)"
        by (simp add: limit_request_def rate_in_window)
      moreover from room have "c + 1 \<le> maxRequests" by simp
      ultimately have "limit_requests rs (snd (limit_request r store)) ip =
          Some (min (c + 1 + int (length (counted ip rs))) maxRequests, R)"
        using rest by (rule Cons.IH [where store = "snd (limit_request r store)" and c = "c + 1"])
      with cnt show ?thesis by (simp add: add.assoc add.commute)
    qed
  next
    case False
    then have "snd (limit_request r store) ip = store ip" by (rule limit_request_not_counted)
    with Cons.prems(1) have s: "snd (limit_request r store) ip = Some (c, R)" by simp
    from False have cnt: "counted ip (r # rs) = counted ip rs" by (simp add: counted_def)
    with Cons.prems(3) have "\<forall>r \<in> set (counted ip rs). req_time r \<le> R" by simp
    from Cons.IH [where store = "snd (limit_request r store)" and c = c, OF s Cons.prems(2) this] cnt
    show ?thesis by simp
  qed
qed

text \<open>
  The first counted request of a client that finds no record, or an elapsed one, opens
  the window that the later requests are counted in.
\<close>

lemma window_opens:
  assumes "store ip = None \<or> (\<exists>c R. store ip = Some (c, R) \<and> R < req_time r0)"
      and "counted ip rs = r0 # rest"
      and "\<forall>r \<in> set rest. req_time r \<le> req_time r0 + windowMs"
  shows "limit_requests rs store ip =
           Some (min (1 + int (length rest)) maxRequests, req_time r0 + windowMs)"
  using assms
proof (induction rs arbitrary: store)
  case Nil
  then show ?case by (simp add: counted_def)
next
  case (Cons r rs)
  show ?case
  proof (cases "req_ip r = ip \<and> rate_limited (req_route r)")
    case True
    with Cons.prems(2) have r: "r = r0" and cnt: "counted ip rs = rest" by (simp_all add: counted_def)
    from Cons.prems(1) r
    have "store ip = None \<or> (\<exists>c R. store ip = Some (c, R) \<and> R < req_time r)" by simp
    then have "rateLimitMiddleware windowMs maxRequests ip (req_time r) store =
        (Next, store(ip \<mapsto> (1, req_time r + windowMs)))"
      by (rule rate_first_request) (simp add: maxRequests_def)
    with True have "snd (limit_request r store) ip = Some (1, req_time r + windowMs)"
      by (simp add: limit_request_def)
    moreover have "(1::int) \<le> maxRequests" by (simp add: maxRequests_def)
    moreover from Cons.prems(3) cnt r
    have "\<forall>x \<in> set (counted ip rs). req_time x \<le> req_time r + windowMs" by simp
    ultimately have "limit_requests rs (snd (limit_request r store)) ip =
        Some (min (1 + int (length (counted ip rs))) maxRequests, req_time r + windowMs)"
      by (rule window_count [where store = "snd (limit_request r store)" and c = 1])
    with r cnt show ?thesis by simp
  next
    case False
    then have "snd (limit_request r store) ip = store ip" by (rule limit_request_not_counted)
    with Cons.prems(1)
    have s: "snd (limit_request r store) ip = None \<or>
             (\<exists>c R. snd (limit_request r store) ip = Some (c, R) \<and> R < req_time r0)"
      by simp
    from False Cons.prems(2) have "counted ip rs = r0 # rest" by (auto simp: counted_def)
    from Cons.IH [where store = "snd (limit_request r store)", OF s this Cons.prems(3)]
    show ?thesis by simp
  qed
qed

text \<open>
  C5. A window of a client opens with a request \<open>r0\<close> on a rate-limited route that finds
  no record of the client (its first request ever) or a record whose reset time has
  passed (the first request after an earlier window). The requests are mixed with those
  of others; the client's later ones on rate-limited routes before \<open>r\<close> are \<open>rest\<close>, all
  of them and \<open>r\<close> itself no later than 15 minutes after \<open>r0\<close>. Then \<open>r\<close>, the
  client's request number \<open>length rest + 2\<close> in the window, is passed on if that number
  is at most 100 and is refused otherwise, with \<open>retryAfter\<close> the seconds left in the
  window, rounded up. The health check has no limiter in its chain: it is passed on even
  then, and leaves the store as it is.
\<close>

theorem rate_limit_budget:
  assumes "store ip = None \<or> (\<exists>c R. store ip = Some (c, R) \<and> R < req_time r0)"
      and "counted ip pre = r0 # rest"
      and "\<forall>x \<in> set rest. req_time x \<le> req_time r0 + windowMs"
      and "req_ip r = ip" and "rate_limited (req_route r)"
      and "req_time r \<le> req_time r0 + windowMs"
  shows "fst (limit_request r (limit_requests pre store)) =
           (if length rest + 2 \<le> 100 then Next
            else TooManyRequests (ceil_div_1000 (req_time r0 + windowMs - req_time r))) \<and>
         limit_request (r\<lparr>req_route := Health\<rparr>) (limit_requests pre store) =
           (Next, limit_requests pre store)"
proof -
  from assms(1-3) have s: "limit_requests pre store ip =
      Some (min (1 + int (length rest)) maxRequests, req_time r0 + windowMs)"
    by (rule window_opens [where store = store])
  from assms(4,5) have "limit_request r (limit_requests pre store) =
      rateLimitMiddleware windowMs maxRequests ip (req_time r) (limit_requests pre store)"
    by (simp add: limit_request_def)
  with rate_in_window [where store = "limit_requests pre store" and ip = ip and w = windowMs
                        and budget = maxRequests, OF s assms(6)]
  have "fst (limit_request r (limit_requests pre store)) =
      (if min (1 + int (length rest)) maxRequests \<ge> maxRequests
       then TooManyRequests (ceil_div_1000 (req_time r0 + windowMs - req_time r)) else Next)"
    by simp
  moreover have "min (1 + int (length rest)) maxRequests \<ge> maxRequests \<longleftrightarrow> \<not> length rest + 2 \<le> 100"
    by (auto simp: maxRequests_def)
  ultimately show ?thesis by (simp add: limit_request_def)
qed

text \<open>
  An instance in a second window. The record of the client shows the budget of an
  earlier window used up, with the reset time 900000. A request at that very instant is
  still refused. The next one, a millisecond later, opens a new window; it and 99 more
  are passed on, and the one after them, a minute later, is refused with 840 seconds to
  wait.
\<close>

theorem rate_limit_budget_witness:
  "[''203.0.113.7'' \<mapsto> (100, 900000)] ''203.0.113.7'' = Some (100 :: int, 900000 :: int) \<and>
   (900000 :: int) < req_time \<lparr> req_ip = ''203.0.113.7'', req_route = GetConfig, req_time = 900001 \<rparr> \<and>
   fst (limit_request \<lparr> req_ip = ''203.0.113.7'', req_route = GetConfig, req_time = 900000 \<rparr>
          [''203.0.113.7'' \<mapsto> (100, 900000)]) = TooManyRequests 0 \<and>
   counted ''203.0.113.7''
     (replicate 100 \<lparr> req_ip = ''203.0.113.7'', req_route = GetConfig, req_time = 900001 \<rparr>) =
     \<lparr> req_ip = ''203.0.113.7'', req_route = GetConfig, req_time = 900001 \<rparr> #
     replicate 99 \<lparr> req_ip = ''203.0.113.7'', req_route = GetConfig, req_time = 900001 \<rparr> \<and>
   list_all (\<lambda>x. req_time x \<le>
                  req_time \<lparr> req_ip = ''203.0.113.7'', req_route = GetConfig, req_time = 900001 \<rparr> + windowMs)
     (replicate 99 \<lparr> req_ip = ''203.0.113.7'', req_route = GetConfig, req_time = 900001 \<rparr>) \<and>
   req_time \<lparr> req_ip = ''203.0.113.7'', req_route = GetConfig, req_time = 960001 \<rparr>
     \<le> req_time \<lparr> req_ip = ''203.0.113.7'', req_route = GetConfig, req_time = 900001 \<rparr> + windowMs \<and>
   rate_limited (req_route \<lparr> req_ip = ''203.0.113.7'', req_route = GetConfig, req_time = 960001 \<rparr>) \<and>
   fst (limit_request \<lparr> req_ip = ''203.0.113.7'', req_route = GetConfig, req_time = 960001 \<rparr>
          (limit_requests
             (replicate 100 \<lparr> req_ip = ''203.0.113.7'', req_route = GetConfig, req_time = 900001 \<rparr>)
             [''203.0.113.7'' \<mapsto> (100, 900000)])) = TooManyRequests 840"
proof -
  let ?first = "\<lparr> req_ip = ''203.0.113.7'', req_route = GetConfig, req_time = 900001 \<rparr>"
  let ?late = "\<lparr> req_ip = ''203.0.113.7'', req_route = GetConfig, req_time = 960001 \<rparr>"
  let ?store = "[''203.0.113.7'' \<mapsto> (100 :: int, 900000 :: int)]"
  have "replicate (Suc 99) ?first = ?first # replicate 99 ?first" by (rule replicate_Suc)
  then have split: "replicate 100 ?first = ?first # replicate 99 ?first" by simp
  have h0: "?store ''203.0.113.7'' = Some (100, 900000)" "(900000 :: int) < req_time ?first"
    by simp_all
  then have h1: "?store ''203.0.113.7'' = None \<or>
      (\<exists>c R. ?store ''203.0.113.7'' = Some (c, R) \<and> R < req_time ?first)"
    by simp
  have old: "fst (limit_request \<lparr> req_ip = ''203.0.113.7'', req_route = GetConfig, req_time = 900000 \<rparr>
      ?store) = TooManyRequests 0"
    by (simp add: limit_request_def rateLimitMiddleware_def windowMs_def maxRequests_def ceil_div_1000_def)
  have h2: "counted ''203.0.113.7'' (replicate 100 ?first) = ?first # replicate 99 ?first"
    unfolding split by (simp add: counted_def)
  have h3: "\<forall>x \<in> set (replicate 99 ?first). req_time x \<le> req_time ?first + windowMs"
    by (simp add: windowMs_def)
  have h4: "req_ip ?late = ''203.0.113.7''" by simp
  have h5: "rate_limited (req_route ?late)" by simp
  have h6: "req_time ?late \<le> req_time ?first + windowMs" by (simp add: windowMs_def)
  from rate_limit_budget [where store = ?store and ip = "''203.0.113.7''" and ?r0.0 = ?first
         and r = ?late and pre = "replicate 100 ?first" and rest = "replicate 99 ?first", OF h1 h2 h3 h4 h5 h6]
  have "fst (limit_request ?late (limit_requests (replicate 100 ?first) ?store)) = TooManyRequests 840"
    by (simp add: windowMs_def ceil_div_1000_def)
  with h0 old h2 h3 h5 h6 show ?thesis by (simp add: list_all_iff)
qed

text \<open>The TypeScript server's limiter skips the health check, and tells a refused client to retry after the whole window.\<close>

lemma createRateLimit_health:
  "createRateLimit_skip ''/api/health'' \<and> createRateLimit_retryAfter windowMs = 900"
  by (simp add: createRateLimit_skip_def createRateLimit_retryAfter_def ceil_div_1000_def windowMs_def)


section \<open>Verification: validation on upsert\<close>

lemma zparse_shape_issues:
  "(k, sch) \<in> set shape \<Longrightarrow>
   set (fst (zparse sch (path @ [Key k]) (get_prop v k))) \<subseteq>
     set (concat (map (\<lambda>(k, is, out). is) (zparse_shape shape path v)))"
proof (induction shape)
  case Nil
  then show ?case by simp
next
  case (Cons p shape)
  obtain k' s' where p: "p = (k', s')" by (cases p)
  show ?case
  proof (cases "(k, sch) = (k', s')")
    case True
    then show ?thesis unfolding p by (auto simp: case_prod_beta)
  next
    case False
    with Cons.prems p have "(k, sch) \<in> set shape" by auto
    from Cons.IH [OF this] show ?thesis unfolding p by (auto simp: case_prod_beta)
  qed
qed

lemma zparse_object_issue:
  assumes "(k, sch) \<in> set shape"
      and "i \<in> set (fst (zparse sch (path @ [Key k]) (get_prop (JObj fs) k)))"
  shows "i \<in> set (fst (zparse (ZObject shape) path (JObj fs)))"
proof -
  from zparse_shape_issues [OF assms(1), of path "JObj fs"] assms(2)
  have "i \<in> set (concat (map (\<lambda>(k, is, out). is) (zparse_shape shape path (JObj fs))))"
    by blast
  then show ?thesis by (simp add: Let_def)
qed

lemma bad_color_issue:
  assumes "pc \<noteq> JUndefined" and "\<forall>c. pc = JStr c \<longrightarrow> \<not> matches HexColor c"
  shows "\<exists>code. Issue code path \<in> set (fst (zparse (ZDefault (ZString [SRegex HexColor]) d) path pc))"
  using assms by (cases pc) auto

lemma primaryColor_issue:
  assumes "get_prop (JObj body) ''ui'' = JObj ui"
      and "get_prop (JObj ui) ''primaryColor'' \<noteq> JUndefined"
      and "\<forall>c. get_prop (JObj ui) ''primaryColor'' = JStr c \<longrightarrow> \<not> matches HexColor c"
  shows "\<exists>code. Issue code [Key ''ui'', Key ''primaryColor'']
           \<in> set (fst (zparse cookieConfigSchema [] (JObj body)))"
proof -
  from bad_color_issue [OF assms(2,3)] obtain code where
    1: "Issue code [Key ''ui'', Key ''primaryColor'']
       \<in> set (fst (zparse (ZDefault (ZString [SRegex HexColor]) (JStr ''#007bff''))
                     ([Key ''ui''] @ [Key ''primaryColor'']) (get_prop (JObj ui) ''primaryColor'')))"
    by auto
  have 2: "Issue code [Key ''ui'', Key ''primaryColor'']
       \<in> set (fst (zparse uiConfigSchema [Key ''ui''] (JObj ui)))"
    unfolding uiConfigSchema_def
    by (rule zparse_object_issue [where k = "''primaryColor''"
          and sch = "ZDefault (ZString [SRegex HexColor]) (JStr ''#007bff'')"]) (simp, rule 1)
  with assms(1) have 3: "Issue code [Key ''ui'', Key ''primaryColor'']
       \<in> set (fst (zparse uiConfigSchema ([] @ [Key ''ui'']) (get_prop (JObj body) ''ui'')))"
    by simp
  have "Issue code [Key ''ui'', Key ''primaryColor'']
       \<in> set (fst (zparse cookieConfigSchema [] (JObj body)))"
    unfolding cookieConfigSchema_def
    by (rule zparse_object_issue [where k = "''ui''" and sch = uiConfigSchema]) (simp, rule 3)
  then show ?thesis by blast
qed

text \<open>
  C6. The request body is an object with a theme whose \<open>primaryColor\<close> is present and is not a string
  of the form \<open>#\<close> and six hexadecimal digits (\<open>"blue"\<close>, say). Then
  \<open>createOrUpdateConfig\<close>, with the validation service's \<open>validateConfig\<close>, ends in the
  \<open>ValidationError\<close> \<open>Invalid configuration format\<close>, one of whose field-level entries
  is for the field \<open>ui.primaryColor\<close>; the documents and the cache are as before.
\<close>

theorem upsert_rejects_bad_primaryColor:
  assumes "get_prop (JObj body) ''ui'' = JObj ui"
      and "get_prop (JObj ui) ''primaryColor'' \<noteq> JUndefined"
      and "\<forall>c. get_prop (JObj ui) ''primaryColor'' = JStr c \<longrightarrow> \<not> matches HexColor c"
  shows "\<exists>errs. createOrUpdateConfig validateConfig lang (JObj body) user s =
                  (Inl (ValidationError ''Invalid configuration format'' errs), s) \<and>
                ''ui.primaryColor'' \<in> field ` set errs"
proof -
  from primaryColor_issue [OF assms] obtain code where
    i: "Issue code [Key ''ui'', Key ''primaryColor''] \<in> set (fst (zparse cookieConfigSchema [] (JObj body)))"
    by blast
  obtain issues parsed where z: "zparse cookieConfigSchema [] (JObj body) = (issues, parsed)"
    by (cases "zparse cookieConfigSchema [] (JObj body)")
  with i have mem: "Issue code [Key ''ui'', Key ''primaryColor''] \<in> set issues" by simp
  then have ne: "issues \<noteq> []" by auto
  let ?errs = "map (\<lambda>i. \<lparr> field = join_path (path_of i), message = code_of i \<rparr>) issues"
  from z ne have v: "validateConfig (JObj body) = \<lparr> isValid = False, errors = ?errs, vdata = JUndefined \<rparr>"
    by (simp add: validateConfig_def)
  have "field \<lparr> field = join_path (path_of (Issue code [Key ''ui'', Key ''primaryColor''])),
                 message = code_of (Issue code [Key ''ui'', Key ''primaryColor'']) \<rparr> = ''ui.primaryColor''"
    by simp
  with mem have "''ui.primaryColor'' \<in> field ` set ?errs"
    by (metis (no_types, lifting) image_eqI list.set_map)
  with v show ?thesis
    by (simp add: createOrUpdateConfig_def Let_def)
qed

theorem upsert_rejects_bad_primaryColor_witness:
  "get_prop (JObj (fields_of (example_body (JStr ''blue'') (JBool True)))) ''ui'' =
     JObj [(''primaryColor'', JStr ''blue'')] \<and>
   get_prop (JObj [(''primaryColor'', JStr ''blue'')]) ''primaryColor'' \<noteq> JUndefined \<and>
   \<not> matches HexColor ''blue'' \<and>
   (\<exists>errs. createOrUpdateConfig validateConfig ''en''
             (JObj (fields_of (example_body (JStr ''blue'') (JBool True)))) (JStr ''admin'') cached_server =
             (Inl (ValidationError ''Invalid configuration format'' errs), cached_server) \<and>
           ''ui.primaryColor'' \<in> field ` set errs)"
proof -
  have h1: "get_prop (JObj (fields_of (example_body (JStr ''blue'') (JBool True)))) ''ui'' =
     JObj [(''primaryColor'', JStr ''blue'')]"
    by (simp add: example_body_def)
  have h2: "get_prop (JObj [(''primaryColor'', JStr ''blue'')]) ''primaryColor'' \<noteq> JUndefined"
    by simp
  have h3: "\<forall>c. get_prop (JObj [(''primaryColor'', JStr ''blue'')]) ''primaryColor'' = JStr c \<longrightarrow>
        \<not> matches HexColor c"
    by simp
  have h4: "\<not> matches HexColor ''blue''"
    by simp
  from upsert_rejects_bad_primaryColor [OF h1 h2 h3, of "''en''" "JStr ''admin''" cached_server] h1 h2 h4
  show ?thesis by blast
qed


section \<open>Verification: a write evicts the cached configuration\<close>











text \<open>
  Without the write, the same read is answered from the cache with the document cached
  earlier.
\<close>

lemma get_before_upsert_reads_cache:
  "fst (getConfigByLanguage ''en'' 1000 cached_server) =
     Inr \<lparr> success = True, resp_data = old_document, resp_language = ''en'',
           resp_source = Some ''cache'' \<rparr>"
  by (simp add: getConfigByLanguage_def cached_server_def cache_get_def cacheKey_def old_document_def)

text \<open>
  The cache key is built from the language as it stands in the URL, while the store is
  addressed by its lowercase form. An upsert addressed to \<open>EN\<close> rewrites the document of
  \<open>en\<close> and evicts the entry of \<open>EN\<close>; a read of \<open>en\<close> is then still answered with the
  document cached before the write.
\<close>

lemma upsert_uppercase_leaves_stale_entry:
  "(case fst (createOrUpdateConfig validateConfig ''EN'' (example_body (JStr ''#336699'') (JBool True))
                (JStr ''admin'') cached_server) of Inl e \<Rightarrow> False | Inr r \<Rightarrow> success r) \<and>
   fst (getConfigByLanguage ''en'' 1000
          (snd (createOrUpdateConfig validateConfig ''EN'' (example_body (JStr ''#336699'') (JBool True))
                  (JStr ''admin'') cached_server))) =
     Inr \<lparr> success = True, resp_data = old_document, resp_language = ''en'',
           resp_source = Some ''cache'' \<rparr>"
  by code_simp

end
